theory Spec2Isabelle
  imports Main "HOL-Library.Char_ord" "HOL-Library.List_Lexorder"
begin

section \<open>Python values used by the exporter\<close>

text \<open>
  The model follows \<^verbatim>\<open>webtoon_downloader/core/webtoon/exporter.py\<close>.
  A Python \<^verbatim>\<open>str\<close> is a \<^typ>\<open>string\<close>: a list of characters whose code points are
  below 256. An exception that leaves a method is a value of \<open>exn\<close>; a method returns the
  exception (if any) together with the state it leaves behind, because a Python exception
  does not undo the assignments made before it.
\<close>

datatype exn = OSError nat | ValueError

definition newline :: string where
  "newline = [CHR 0x0A]"

definition dquote :: char where
  "dquote = CHR 0x22"

definition bslash :: char where
  "bslash = CHR 0x5C"

subsection \<open>\<^verbatim>\<open>str(int)\<close> and the format specification \<^verbatim>\<open>0{padding}d\<close>\<close>

definition digit_char :: "nat \<Rightarrow> char" where
  "digit_char d = char_of (48 + d)"

fun digits10 :: "nat \<Rightarrow> string" where
  "digits10 n = (if n < 10 then [digit_char n] else digits10 (n div 10) @ [digit_char (n mod 10)])"

declare digits10.simps [simp del]

definition str_int :: "int \<Rightarrow> string" where
  "str_int n = (if n < 0 then CHR ''-'' # digits10 (nat (- n)) else digits10 (nat n))"

text \<open>
  \<^verbatim>\<open>f"{number:0{padding}d}"\<close> builds the specification \<^verbatim>\<open>"0" + str(padding) + "d"\<close>.
  A negative padding gives \<^verbatim>\<open>"0-1d"\<close>, which Python rejects with \<^verbatim>\<open>ValueError\<close>.
  Otherwise the \<^verbatim>\<open>0\<close> flag selects the fill character \<^verbatim>\<open>0\<close> with the sign-aware
  alignment \<^verbatim>\<open>=\<close>: the zeros go between the sign and the digits.
\<close>

definition format_0d :: "int \<Rightarrow> int \<Rightarrow> exn + string" where
  "format_0d n padding =
     (if padding < 0 then Inl ValueError
      else
        let sign = (if n < 0 then ''-'' else '''');
            digits = digits10 (nat \<bar>n\<bar>);
            total = length sign + length digits;
            width = nat padding;
            n_padding = (if total < width then width - total else 0)
        in Inr (sign @ replicate n_padding (CHR ''0'') @ digits))"

subsection \<open>Pure paths (\<^verbatim>\<open>pathlib\<close>, POSIX flavour)\<close>

datatype PurePath = PurePath (anchor: string) (parts: "string list")

fun split_sep :: "string \<Rightarrow> string list" where
  "split_sep [] = [[]]"
| "split_sep (c # cs) =
     (if c = CHR ''/'' then [] # split_sep cs
      else (case split_sep cs of [] \<Rightarrow> [[c]] | w # ws \<Rightarrow> (c # w) # ws))"

definition splitroot :: "string \<Rightarrow> string" where
  "splitroot s =
     (let n = length (takeWhile (\<lambda>c. c = CHR ''/'') s)
      in if n = 0 then '''' else if n = 2 then ''//'' else ''/'')"

definition Path :: "string \<Rightarrow> PurePath" where
  "Path s = PurePath (splitroot s) (filter (\<lambda>x. x \<noteq> [] \<and> x \<noteq> ''.'') (split_sep s))"

definition truediv :: "PurePath \<Rightarrow> string \<Rightarrow> PurePath" where
  "truediv p s =
     (let q = Path s
      in if anchor q \<noteq> [] then q else PurePath (anchor p) (parts p @ parts q))"

definition parent :: "PurePath \<Rightarrow> PurePath" where
  "parent p = PurePath (anchor p) (butlast (parts p))"

definition ancestors :: "PurePath \<Rightarrow> PurePath list" where
  "ancestors p = map (\<lambda>k. PurePath (anchor p) (take k (parts p))) [0..<Suc (length (parts p))]"

subsection \<open>The filesystem\<close>

text \<open>
  The files and directories that exist, and what the operating system refuses: the three
  \<open>errno\<close> fields give the error (if any) of creating a directory chain, of opening a file
  and of writing to it.
\<close>

record filesystem =
  files :: "PurePath \<rightharpoonup> string"
  dirs :: "PurePath set"
  mkdir_errno :: "PurePath \<Rightarrow> nat option"
  open_errno :: "PurePath \<Rightarrow> nat option"
  write_errno :: "PurePath \<Rightarrow> nat option"

datatype open_mode = ModeA | ModeW

subsection \<open>\<^verbatim>\<open>json.dumps(obj, sort_keys=True, indent=4)\<close>\<close>

datatype py_obj =
    PyStr string
  | PyDictS "(string \<times> py_obj) list"
  | PyDictI "(int \<times> py_obj) list"

definition hex_digit :: "nat \<Rightarrow> char" where
  "hex_digit d = (if d < 10 then char_of (48 + d) else char_of (87 + d))"

definition escape_char :: "char \<Rightarrow> string" where
  "escape_char c =
     (if c = bslash then [bslash, bslash]
      else if c = dquote then [bslash, dquote]
      else if c = CHR 0x08 then [bslash, CHR ''b'']
      else if c = CHR 0x0C then [bslash, CHR ''f'']
      else if c = CHR 0x0A then [bslash, CHR ''n'']
      else if c = CHR 0x0D then [bslash, CHR ''r'']
      else if c = CHR 0x09 then [bslash, CHR ''t'']
      else if 0x20 \<le> (of_char c :: nat) \<and> (of_char c :: nat) \<le> 0x7E then [c]
      else [bslash, CHR ''u'', CHR ''0'', CHR ''0'',
            hex_digit ((of_char c :: nat) div 16), hex_digit ((of_char c :: nat) mod 16)])"

definition encode_basestring_ascii :: "string \<Rightarrow> string" where
  "encode_basestring_ascii s = dquote # concat (map escape_char s) @ [dquote]"

fun join :: "string \<Rightarrow> string list \<Rightarrow> string" where
  "join sep [] = []"
| "join sep [x] = x"
| "join sep (x # y # ys) = x @ sep @ join sep (y # ys)"

definition newline_indent :: "nat \<Rightarrow> string" where
  "newline_indent lvl = newline @ concat (replicate lvl ''    '')"

definition iterencode_dict :: "nat \<Rightarrow> (string \<times> string) list \<Rightarrow> string" where
  "iterencode_dict lvl kvs =
     (if kvs = [] then ''{}''
      else ''{'' @ newline_indent (Suc lvl)
           @ join ('','' @ newline_indent (Suc lvl)) (map (\<lambda>(k, v). k @ '': '' @ v) kvs)
           @ newline_indent lvl @ ''}'')"

function iterencode :: "nat \<Rightarrow> py_obj \<Rightarrow> string" where
  "iterencode lvl (PyStr s) = encode_basestring_ascii s"
| "iterencode lvl (PyDictS items) =
     iterencode_dict lvl
       (map (\<lambda>kv. (encode_basestring_ascii (fst kv), iterencode (Suc lvl) (snd kv)))
            (sort_key fst items))"
| "iterencode lvl (PyDictI items) =
     iterencode_dict lvl
       (map (\<lambda>kv. (encode_basestring_ascii (str_int (fst kv)), iterencode (Suc lvl) (snd kv)))
            (sort_key fst items))"
  by pat_completeness auto

termination
proof (relation "measure (\<lambda>(lvl, obj). size obj)")
  have less: "size (snd kv) < Suc (size_list (size_prod (\<lambda>x. 0) size) kvs)"
    if "kv \<in> set kvs" for kv :: "'k \<times> py_obj" and kvs
    using that
  proof (induction kvs)
    case Nil
    then show ?case by simp
  next
    case (Cons a kvs)
    then show ?case by (cases a) (auto simp: less_Suc_eq_le)
  qed
  show "wf (measure (\<lambda>(lvl, obj). size obj))" by simp
  show "((Suc lvl, snd kv), lvl, PyDictS items) \<in> measure (\<lambda>(lvl, obj). size obj)"
    if "kv \<in> set (sort_key fst items)" for lvl items kv
    using that less [of kv items] by simp
  show "((Suc lvl, snd kv), lvl, PyDictI items) \<in> measure (\<lambda>(lvl, obj). size obj)"
    if "kv \<in> set (sort_key fst items)" for lvl items kv
    using that less [of kv items] by simp
qed

definition json_dumps :: "py_obj \<Rightarrow> string" where
  "json_dumps obj = iterencode 0 obj"

section \<open>The exporter\<close>

datatype TextExporterFormat = FormatText | FormatJson | FormatAll

text \<open>
  \<^verbatim>\<open>ChapterInfo\<close> is declared in \<^verbatim>\<open>models.py\<close>; the exporter reads its \<^verbatim>\<open>number\<close>
  and its \<^verbatim>\<open>title\<close> (here \<open>chapter_title\<close>) only.
\<close>

record ChapterInfo =
  number :: int
  chapter_title :: string

record ExportChapterData =
  title :: string
  "notes" :: string

text \<open>
  A Python \<^verbatim>\<open>dict\<close> keeps its items in insertion order: \<open>chapters\<close> is the list of
  its items, and \<open>dict_setitem\<close> is the assignment \<^verbatim>\<open>d[k] = v\<close>.
\<close>

record ExportData =
  chapters :: "(int \<times> ExportChapterData) list"
  summary :: string

fun dict_setitem :: "('k \<times> 'v) list \<Rightarrow> 'k \<Rightarrow> 'v \<Rightarrow> ('k \<times> 'v) list" where
  "dict_setitem [] k v = [(k, v)]"
| "dict_setitem ((k', v') # kvs) k v =
     (if k' = k then (k, v) # kvs else (k', v') # dict_setitem kvs k v)"

fun dict_get :: "('k \<times> 'v) list \<Rightarrow> 'k \<Rightarrow> 'v option" where
  "dict_get [] k = None"
| "dict_get ((k', v') # kvs) k = (if k' = k then Some v' else dict_get kvs k)"

text \<open>The fields \<open>p_dest\<close>, \<open>p_data\<close>, \<open>p_write_json\<close> and \<open>p_write_text\<close> are the
  private attributes \<^verbatim>\<open>_dest\<close>, \<^verbatim>\<open>_data\<close>, \<^verbatim>\<open>_write_json\<close> and \<^verbatim>\<open>_write_text\<close>.\<close>

record TextExporter =
  export_format :: TextExporterFormat
  dest :: string
  p_dest :: PurePath
  p_data :: ExportData
  p_write_json :: bool
  p_write_text :: bool

definition post_init :: "TextExporterFormat \<Rightarrow> string \<Rightarrow> TextExporter" where
  "post_init fmt d =
     \<lparr>export_format = fmt, dest = d, p_dest = Path d,
      p_data = \<lparr>chapters = [], summary = []\<rparr>,
      p_write_json = (fmt \<in> set [FormatJson, FormatAll]),
      p_write_text = (fmt \<in> set [FormatText, FormatAll])\<rparr>"

definition default_dest :: string where
  "default_dest = ''.''"

definition aio_write ::
  "filesystem \<Rightarrow> PurePath \<Rightarrow> string \<Rightarrow> open_mode \<Rightarrow> string \<Rightarrow> exn option \<times> filesystem" where
  "aio_write fs target data mode ending =
     (case mkdir_errno fs (parent target) of
        Some e \<Rightarrow> (Some (OSError e), fs)
      | None \<Rightarrow>
          (let fs1 = fs\<lparr>dirs := dirs fs \<union> set (ancestors (parent target))\<rparr> in
           case open_errno fs1 target of
             Some e \<Rightarrow> (Some (OSError e), fs1)
           | None \<Rightarrow>
               (let old = (case mode of
                             ModeW \<Rightarrow> []
                           | ModeA \<Rightarrow> (case files fs1 target of None \<Rightarrow> [] | Some c \<Rightarrow> c));
                    fs2 = fs1\<lparr>files := (files fs1)(target \<mapsto> old)\<rparr> in
                case write_errno fs2 target of
                  Some e \<Rightarrow> (Some (OSError e), fs2)
                | None \<Rightarrow> (None, fs2\<lparr>files := (files fs2)(target \<mapsto> old @ data @ ending)\<rparr>))))"

text \<open>\<^verbatim>\<open>Path(directory) if directory else self._dest\<close>: \<^verbatim>\<open>None\<close> and the empty
  string are false.\<close>

definition resolve_directory :: "TextExporter \<Rightarrow> string option \<Rightarrow> PurePath" where
  "resolve_directory self directory =
     (case directory of
        None \<Rightarrow> p_dest self
      | Some d \<Rightarrow> if d = [] then p_dest self else Path d)"

definition add_series_texts ::
  "TextExporter \<Rightarrow> filesystem \<Rightarrow> string option \<Rightarrow> string option
     \<Rightarrow> exn option \<times> TextExporter \<times> filesystem" where
  "add_series_texts self fs summary' directory =
     (case summary' of
        None \<Rightarrow> (None, self, fs)
      | Some s \<Rightarrow>
          if s = [] \<or> \<not> p_write_text self then (None, self, fs)
          else
            (let self1 = self\<lparr>p_data := (p_data self)\<lparr>summary := s\<rparr>\<rparr>;
                 directory' = resolve_directory self1 directory;
                 (e, fs1) = aio_write fs (truediv directory' ''summary.txt'') s ModeW newline
             in (e, self1, fs1)))"

definition add_chapter_details ::
  "TextExporter \<Rightarrow> filesystem \<Rightarrow> ChapterInfo \<Rightarrow> string \<Rightarrow> int \<Rightarrow> string option
     \<Rightarrow> exn option \<times> TextExporter \<times> filesystem" where
  "add_chapter_details self fs chapter notes' padding directory =
     (let self1 = self\<lparr>p_data := (p_data self)\<lparr>chapters :=
                    dict_setitem (chapters (p_data self)) (number chapter)
                      \<lparr>title = chapter_title chapter, notes = notes'\<rparr>\<rparr>\<rparr>
      in
        if \<not> p_write_text self1 then (None, self1, fs)
        else
          (let directory' = resolve_directory self1 directory in
           case format_0d (number chapter) padding of
             Inl e \<Rightarrow> (Some e, self1, fs)
           | Inr prefix \<Rightarrow>
               (case aio_write fs (truediv directory' (prefix @ ''_title.txt''))
                       (chapter_title chapter) ModeW newline of
                  (Some e, fs1) \<Rightarrow> (Some e, self1, fs1)
                | (None, fs1) \<Rightarrow>
                    if notes' \<noteq> [] then
                      (case format_0d (number chapter) padding of
                         Inl e \<Rightarrow> (Some e, self1, fs1)
                       | Inr prefix' \<Rightarrow>
                           (let (e, fs2) = aio_write fs1 (truediv directory' (prefix' @ ''_notes.txt''))
                                             notes' ModeW newline
                            in (e, self1, fs2)))
                    else (None, self1, fs1))))"

definition chapter_obj :: "ExportChapterData \<Rightarrow> py_obj" where
  "chapter_obj c = PyDictS [(''title'', PyStr (title c)), (''notes'', PyStr (notes c))]"

definition data_obj :: "ExportData \<Rightarrow> py_obj" where
  "data_obj d =
     PyDictS [(''chapters'', PyDictI (map (\<lambda>(n, c). (n, chapter_obj c)) (chapters d))),
              (''summary'', PyStr (summary d))]"

definition write_data ::
  "TextExporter \<Rightarrow> filesystem \<Rightarrow> string option \<Rightarrow> exn option \<times> TextExporter \<times> filesystem" where
  "write_data self fs directory =
     (if \<not> p_write_json self then (None, self, fs)
      else
        (let directory' = resolve_directory self directory;
             data = json_dumps (data_obj (p_data self));
             (e, fs1) = aio_write fs (truediv directory' ''info.json'') data ModeW []
         in (e, self, fs1)))"

section \<open>Callers, invariants and reference definitions\<close>

text \<open>A filesystem with no file and no directory, on which the operating system refuses
  nothing.\<close>

definition empty_fs :: filesystem where
  "empty_fs = \<lparr>files = Map.empty, dirs = {}, mkdir_errno = (\<lambda>_. None),
               open_errno = (\<lambda>_. None), write_errno = (\<lambda>_. None)\<rparr>"

text \<open>A filesystem on which no file can be opened (errno 13, \<^verbatim>\<open>EACCES\<close>).\<close>

definition readonly_fs :: filesystem where
  "readonly_fs = empty_fs\<lparr>open_errno := (\<lambda>_. Some 13)\<rparr>"

text \<open>A caller issues the public methods one after the other, awaiting each, and goes on
  after an exception: \<open>run_calls\<close> is the state such a caller reaches from a fresh
  exporter.\<close>

datatype call =
    AddSeriesTexts "string option" "string option"
  | AddChapterDetails ChapterInfo string int "string option"
  | WriteData "string option"

fun do_call :: "TextExporter \<times> filesystem \<Rightarrow> call \<Rightarrow> exn option \<times> TextExporter \<times> filesystem" where
  "do_call (self, fs) (AddSeriesTexts s directory) = add_series_texts self fs s directory"
| "do_call (self, fs) (AddChapterDetails chapter notes' padding directory) =
     add_chapter_details self fs chapter notes' padding directory"
| "do_call (self, fs) (WriteData directory) = write_data self fs directory"

definition run_calls ::
  "TextExporterFormat \<Rightarrow> string \<Rightarrow> filesystem \<Rightarrow> call list \<Rightarrow> TextExporter \<times> filesystem" where
  "run_calls fmt d fs calls = foldl (\<lambda>st c. snd (do_call st c)) (post_init fmt d, fs) calls"

definition no_duplicate_keys :: "ExportData \<Rightarrow> bool" where
  "no_duplicate_keys d = distinct (map fst (chapters d))"

text \<open>The configuration derived at construction.\<close>

definition config :: "TextExporter \<Rightarrow> TextExporterFormat \<times> string \<times> PurePath \<times> bool \<times> bool" where
  "config self = (export_format self, dest self, p_dest self, p_write_json self, p_write_text self)"

text \<open>The operating system refuses nothing on the way to writing the file \<open>p\<close>.\<close>

definition permits :: "filesystem \<Rightarrow> PurePath \<Rightarrow> bool" where
  "permits fs p =
     (mkdir_errno fs (parent p) = None \<and> open_errno fs p = None \<and> write_errno fs p = None)"

text \<open>Zero padding of a numeral to a width, as the spec words it and as Python's
  \<^verbatim>\<open>str.zfill\<close> defines it: zeros are added on the left up to the width, after the sign
  when there is one.\<close>

definition zfill :: "nat \<Rightarrow> string \<Rightarrow> string" where
  "zfill width s =
     (if width \<le> length s then s
      else (case s of
              [] \<Rightarrow> replicate width (CHR ''0'')
            | c # cs \<Rightarrow>
                if c = CHR ''-'' \<or> c = CHR ''+''
                then c # replicate (width - length s) (CHR ''0'') @ cs
                else replicate (width - length s) (CHR ''0'') @ s))"

text \<open>
  The content of \<^verbatim>\<open>info.json\<close> as the spec describes it: an object with the keys
  \<^verbatim>\<open>chapters\<close> and \<^verbatim>\<open>summary\<close> in this order, four spaces per level, each chapter under
  its number as a string, each record with \<^verbatim>\<open>notes\<close> before \<^verbatim>\<open>title\<close>, and no newline
  at the end. \<open>chapters_json\<close> lays the items out in the order it is given them.
\<close>

definition quoted :: "string \<Rightarrow> string" where
  "quoted s = dquote # s @ [dquote]"

definition indent :: "nat \<Rightarrow> string" where
  "indent lvl = concat (replicate lvl ''    '')"

definition record_json :: "ExportChapterData \<Rightarrow> string" where
  "record_json c =
     ''{'' @ newline
       @ indent 3 @ quoted ''notes'' @ '': '' @ encode_basestring_ascii (notes c) @ '','' @ newline
       @ indent 3 @ quoted ''title'' @ '': '' @ encode_basestring_ascii (title c) @ newline
       @ indent 2 @ ''}''"

definition chapters_json :: "(int \<times> ExportChapterData) list \<Rightarrow> string" where
  "chapters_json items =
     (if items = [] then ''{}''
      else ''{'' @ newline
             @ indent 2
             @ join ('','' @ newline @ indent 2)
                 (map (\<lambda>(n, c). quoted (str_int n) @ '': '' @ record_json c) items)
             @ newline
             @ indent 1 @ ''}'')"

definition info_json :: "ExportData \<Rightarrow> string" where
  "info_json d =
     ''{'' @ newline
       @ indent 1 @ quoted ''chapters'' @ '': '' @ chapters_json (sort_key fst (chapters d))
       @ '','' @ newline
       @ indent 1 @ quoted ''summary'' @ '': '' @ encode_basestring_ascii (summary d) @ newline
       @ ''}''"

section \<open>The aggregate and \<^verbatim>\<open>info.json\<close> over Unicode code points\<close>

text \<open>
  The methods store and write the texts they are given without looking inside them, and
  the sections above take a text as a \<^typ>\<open>string\<close>. \<^verbatim>\<open>json.dumps\<close> and \<^verbatim>\<open>json.loads\<close> do look
  inside: a character outside printable ASCII is written as an escape \<^verbatim>\<open>\uXXXX\<close>, one
  from \<^verbatim>\<open>0x10000\<close> on as a pair of surrogate escapes, and the reader joins such a pair
  again. This section therefore takes a Python \<^verbatim>\<open>str\<close> as what it is, a sequence of code
  points below \<^verbatim>\<open>0x110000\<close>, and models over it the aggregate (the assignments of
  \<open>add_series_texts\<close> and \<open>add_chapter_details\<close>), its serialization and the reader.
  \<open>code_points\<close> is the \<^verbatim>\<open>str\<close> of a \<^typ>\<open>string\<close>; on such texts the two models agree.
\<close>

type_synonym ustr = "nat list"

definition code_points :: "string \<Rightarrow> ustr" where
  "code_points s = map of_char s"

definition is_str :: "ustr \<Rightarrow> bool" where
  "is_str s = list_all (\<lambda>n. n < 0x110000) s"

subsection \<open>The aggregate\<close>

record UExportChapterData =
  utitle :: ustr
  unotes :: ustr

record UExportData =
  uchapters :: "(int \<times> UExportChapterData) list"
  usummary :: ustr

text \<open>The calls of a caller, with the arguments that reach the aggregate: the summary of
  \<open>add_series_texts\<close>; the number, the title and the notes of \<open>add_chapter_details\<close>.
  \<open>do_call_u\<close> is what the call does to the aggregate of an exporter whose text output
  is enabled or not: the guard and the assignment of \<open>add_series_texts\<close>, the assignment
  of \<open>add_chapter_details\<close>, nothing for \<open>write_data\<close>.\<close>

datatype ucall =
    UAddSeriesTexts "ustr option"
  | UAddChapterDetails int ustr ustr
  | UWriteData

fun do_call_u :: "bool \<Rightarrow> UExportData \<Rightarrow> ucall \<Rightarrow> UExportData" where
  "do_call_u write_text' d (UAddSeriesTexts s) =
     (case s of
        None \<Rightarrow> d
      | Some v \<Rightarrow> if v = [] \<or> \<not> write_text' then d else d\<lparr>usummary := v\<rparr>)"
| "do_call_u write_text' d (UAddChapterDetails n t nt) =
     d\<lparr>uchapters := dict_setitem (uchapters d) n \<lparr>utitle = t, unotes = nt\<rparr>\<rparr>"
| "do_call_u write_text' d UWriteData = d"

definition run_calls_u :: "TextExporterFormat \<Rightarrow> ucall list \<Rightarrow> UExportData" where
  "run_calls_u fmt calls =
     foldl (do_call_u (fmt \<in> set [FormatText, FormatAll])) \<lparr>uchapters = [], usummary = []\<rparr> calls"

subsection \<open>\<^verbatim>\<open>json.dumps\<close> over code points\<close>

datatype uobj =
    UStr ustr
  | UDictS "(ustr \<times> uobj) list"
  | UDictI "(int \<times> uobj) list"

text \<open>\<^verbatim>\<open>'{0:04x}'.format(n)\<close> for \<open>n < 0x10000\<close>.\<close>

definition hex4_digits :: "nat \<Rightarrow> string" where
  "hex4_digits n =
     [hex_digit (n div 4096), hex_digit (n div 256 mod 16),
      hex_digit (n div 16 mod 16), hex_digit (n mod 16)]"

definition escape_code_point :: "nat \<Rightarrow> string" where
  "escape_code_point n =
     (if n = 0x5C then [bslash, bslash]
      else if n = 0x22 then [bslash, dquote]
      else if n = 0x08 then [bslash, CHR ''b'']
      else if n = 0x0C then [bslash, CHR ''f'']
      else if n = 0x0A then [bslash, CHR ''n'']
      else if n = 0x0D then [bslash, CHR ''r'']
      else if n = 0x09 then [bslash, CHR ''t'']
      else if 0x20 \<le> n \<and> n \<le> 0x7E then [char_of n]
      else if n < 0x10000 then bslash # CHR ''u'' # hex4_digits n
      else
        (let m = n - 0x10000;
             s1 = 0xD800 + m div 1024 mod 1024;
             s2 = 0xDC00 + m mod 1024
         in bslash # CHR ''u'' # hex4_digits s1 @ bslash # CHR ''u'' # hex4_digits s2))"

definition encode_ustr :: "ustr \<Rightarrow> string" where
  "encode_ustr s = dquote # concat (map escape_code_point s) @ [dquote]"

function iterencode_u :: "nat \<Rightarrow> uobj \<Rightarrow> string" where
  "iterencode_u lvl (UStr s) = encode_ustr s"
| "iterencode_u lvl (UDictS items) =
     iterencode_dict lvl
       (map (\<lambda>kv. (encode_ustr (fst kv), iterencode_u (Suc lvl) (snd kv)))
            (sort_key fst items))"
| "iterencode_u lvl (UDictI items) =
     iterencode_dict lvl
       (map (\<lambda>kv. (encode_ustr (code_points (str_int (fst kv))), iterencode_u (Suc lvl) (snd kv)))
            (sort_key fst items))"
  by pat_completeness auto

termination
proof (relation "measure (\<lambda>(lvl, obj). size obj)")
  have less: "size (snd kv) < Suc (size_list (size_prod (\<lambda>x. 0) size) kvs)"
    if "kv \<in> set kvs" for kv :: "'k \<times> uobj" and kvs
    using that
  proof (induction kvs)
    case Nil
    then show ?case by simp
  next
    case (Cons a kvs)
    then show ?case by (cases a) (auto simp: less_Suc_eq_le)
  qed
  show "wf (measure (\<lambda>(lvl, obj). size obj))" by simp
  show "((Suc lvl, snd kv), lvl, UDictS items) \<in> measure (\<lambda>(lvl, obj). size obj)"
    if "kv \<in> set (sort_key fst items)" for lvl items kv
    using that less [of kv items] by simp
  show "((Suc lvl, snd kv), lvl, UDictI items) \<in> measure (\<lambda>(lvl, obj). size obj)"
    if "kv \<in> set (sort_key fst items)" for lvl items kv
    using that less [of kv items] by simp
qed

definition json_dumps_u :: "uobj \<Rightarrow> string" where
  "json_dumps_u obj = iterencode_u 0 obj"

definition chapter_obj_u :: "UExportChapterData \<Rightarrow> uobj" where
  "chapter_obj_u c =
     UDictS [(code_points ''title'', UStr (utitle c)), (code_points ''notes'', UStr (unotes c))]"

definition data_obj_u :: "UExportData \<Rightarrow> uobj" where
  "data_obj_u d =
     UDictS [(code_points ''chapters'',
              UDictI (map (\<lambda>(n, c). (n, chapter_obj_u c)) (uchapters d))),
             (code_points ''summary'', UStr (usummary d))]"

text \<open>The text that \<open>write_data\<close> hands to \<open>_aio_write\<close> for \<^verbatim>\<open>info.json\<close>, with an empty
  \<open>end\<close>: none when JSON output is disabled, else
  \<^verbatim>\<open>json.dumps(self._data, sort_keys=True, indent=4)\<close>.\<close>

definition write_data_u :: "TextExporterFormat \<Rightarrow> UExportData \<Rightarrow> string option" where
  "write_data_u fmt d =
     (if fmt \<notin> set [FormatJson, FormatAll] then None else Some (json_dumps_u (data_obj_u d)))"

text \<open>The two models side by side: a text, an object and an aggregate of the sections
  above as they are over code points.\<close>

primrec obj_u :: "py_obj \<Rightarrow> uobj" where
  "obj_u (PyStr s) = UStr (code_points s)"
| "obj_u (PyDictS items) = UDictS (map (map_prod code_points obj_u) items)"
| "obj_u (PyDictI items) = UDictI (map (map_prod id obj_u) items)"

definition chapter_data_u :: "ExportChapterData \<Rightarrow> UExportChapterData" where
  "chapter_data_u c = \<lparr>utitle = code_points (title c), unotes = code_points (notes c)\<rparr>"

definition data_u :: "ExportData \<Rightarrow> UExportData" where
  "data_u d =
     \<lparr>uchapters = map (\<lambda>(n, c). (n, chapter_data_u c)) (chapters d),
      usummary = code_points (summary d)\<rparr>"

fun call_u :: "call \<Rightarrow> ucall" where
  "call_u (AddSeriesTexts s directory) = UAddSeriesTexts (map_option code_points s)"
| "call_u (AddChapterDetails c n padding directory) =
     UAddChapterDetails (number c) (code_points (chapter_title c)) (code_points n)"
| "call_u (WriteData directory) = UWriteData"

subsection \<open>\<^verbatim>\<open>json.loads\<close>\<close>




definition hex_val :: "char \<Rightarrow> nat option" where
  "hex_val c =
     (let n = (of_char c :: nat)
      in if 48 \<le> n \<and> n \<le> 57 then Some (n - 48)
         else if 97 \<le> n \<and> n \<le> 102 then Some (n - 87)
         else if 65 \<le> n \<and> n \<le> 70 then Some (n - 55)
         else None)"

definition hex4 :: "char \<Rightarrow> char \<Rightarrow> char \<Rightarrow> char \<Rightarrow> nat option" where
  "hex4 a b c d =
     (case (hex_val a, hex_val b, hex_val c, hex_val d) of
        (Some x, Some y, Some z, Some w) \<Rightarrow> Some (((x * 16 + y) * 16 + z) * 16 + w)
      | _ \<Rightarrow> None)"

definition unescape :: "char \<Rightarrow> char option" where
  "unescape e =
     (if e = dquote then Some dquote
      else if e = bslash then Some bslash
      else if e = CHR ''/'' then Some (CHR ''/'')
      else if e = CHR ''b'' then Some (CHR 0x08)
      else if e = CHR ''f'' then Some (CHR 0x0C)
      else if e = CHR ''n'' then Some (CHR 0x0A)
      else if e = CHR ''r'' then Some (CHR 0x0D)
      else if e = CHR ''t'' then Some (CHR 0x09)
      else None)"

definition is_high_surrogate :: "nat \<Rightarrow> bool" where
  "is_high_surrogate n = (0xD800 \<le> n \<and> n \<le> 0xDBFF)"

definition is_low_surrogate :: "nat \<Rightarrow> bool" where
  "is_low_surrogate n = (0xDC00 \<le> n \<and> n \<le> 0xDFFF)"

definition cons_result :: "nat \<Rightarrow> (ustr \<times> string) option \<Rightarrow> (ustr \<times> string) option" where
  "cons_result n r = (case r of None \<Rightarrow> None | Some (s, rest) \<Rightarrow> Some (n # s, rest))"

text \<open>\<open>low_escape\<close> looks for the escape of a low surrogate at the head of a text: the
  code point and the text after the escape; \<open>Inl\<close> when the text starts with \<^verbatim>\<open>\u\<close> and
  no four hexadecimal digits follow, which the reader refuses.\<close>

definition low_escape :: "string \<Rightarrow> unit + (nat \<times> string) option" where
  "low_escape r =
     (case r of
        b # u # r' \<Rightarrow>
          if b = bslash \<and> u = CHR ''u'' then
            (case r' of
               l1 # l2 # l3 # l4 # r'' \<Rightarrow>
                 (case hex4 l1 l2 l3 l4 of
                    None \<Rightarrow> Inl ()
                  | Some m \<Rightarrow> if is_low_surrogate m then Inr (Some (m, r'')) else Inr None)
             | _ \<Rightarrow> Inl ())
          else Inr None
      | _ \<Rightarrow> Inr None)"

text \<open>\<open>scan_string\<close> reads a string after its opening quote: the code points up to the
  closing quote, unescaped, and the text after it.\<close>

function (sequential) scan_string :: "string \<Rightarrow> (ustr \<times> string) option" where
  "scan_string [] = None"
| "scan_string (c # cs) =
     (if c = dquote then Some ([], cs)
      else if c = bslash then
        (case cs of
           [] \<Rightarrow> None
         | e # cs' \<Rightarrow>
             if e = CHR ''u'' then
               (case cs' of
                  h1 # h2 # h3 # h4 # r \<Rightarrow>
                    (case hex4 h1 h2 h3 h4 of
                       None \<Rightarrow> None
                     | Some n \<Rightarrow>
                         if is_high_surrogate n then
                           (case low_escape r of
                              Inl x \<Rightarrow> None
                            | Inr None \<Rightarrow> cons_result n (scan_string r)
                            | Inr (Some (m, r'')) \<Rightarrow>
                                cons_result (0x10000 + ((n - 0xD800) * 1024 + (m - 0xDC00)))
                                  (scan_string r''))
                         else cons_result n (scan_string r))
                | _ \<Rightarrow> None)
             else
               (case unescape e of
                  None \<Rightarrow> None
                | Some x \<Rightarrow> cons_result (of_char x) (scan_string cs')))
      else if (of_char c :: nat) < 0x20 then None
      else cons_result (of_char c) (scan_string cs))"
  by pat_completeness auto

termination
  by (relation "measure length")
    (auto simp: low_escape_def split: list.splits if_splits option.splits)














text \<open>The texts that come back as they were: those in which no high surrogate is
  directly followed by a low surrogate. All well-formed Unicode text is such: it has no
  surrogate at all.\<close>

fun no_surrogate_pair :: "ustr \<Rightarrow> bool" where
  "no_surrogate_pair [] = True"
| "no_surrogate_pair [a] = True"
| "no_surrogate_pair (a # b # s) =
     (\<not> (is_high_surrogate a \<and> is_low_surrogate b) \<and> no_surrogate_pair (b # s))"

definition plain_str :: "ustr \<Rightarrow> bool" where
  "plain_str s = (is_str s \<and> no_surrogate_pair s)"


fun plain_call :: "ucall \<Rightarrow> bool" where
  "plain_call (UAddSeriesTexts s) = (case s of None \<Rightarrow> True | Some v \<Rightarrow> plain_str v)"
| "plain_call (UAddChapterDetails n t nt) = (plain_str t \<and> plain_str nt)"
| "plain_call UWriteData = True"




definition str_data :: "UExportData \<Rightarrow> bool" where
  "str_data d =
     (is_str (usummary d) \<and>
      list_all (\<lambda>(n, c). is_str (utitle c) \<and> is_str (unotes c)) (uchapters d))"

definition plain_data :: "UExportData \<Rightarrow> bool" where
  "plain_data d =
     (plain_str (usummary d) \<and>
      list_all (\<lambda>(n, c). plain_str (utitle c) \<and> plain_str (unotes c)) (uchapters d))"

section \<open>Dictionaries\<close>

lemma fst_set_dict_setitem: "fst ` set (dict_setitem kvs k v) = insert k (fst ` set kvs)"
  by (induction kvs k v rule: dict_setitem.induct) auto

lemma distinct_dict_setitem:
  "distinct (map fst kvs) \<Longrightarrow> distinct (map fst (dict_setitem kvs k v))"
  by (induction kvs k v rule: dict_setitem.induct) (auto simp: fst_set_dict_setitem)

lemma dict_get_setitem:
  "dict_get (dict_setitem kvs k v) k' = (if k' = k then Some v else dict_get kvs k')"
  by (induction kvs k v rule: dict_setitem.induct) auto

lemma filter_dict_setitem:
  "distinct (map fst kvs) \<Longrightarrow> filter (\<lambda>kv. fst kv = k) (dict_setitem kvs k v) = [(k, v)]"
proof (induction kvs k v rule: dict_setitem.induct)
  case (1 k v)
  then show ?case by simp
next
  case (2 k' v' kvs k v)
  then show ?case
    by (auto simp: filter_empty_conv rev_image_eqI)
qed

section \<open>Paths, file names and writes\<close>

lemma split_sep_no_slash: "CHR ''/'' \<notin> set s \<Longrightarrow> split_sep s = [s]"
  by (induction s) auto

lemma splitroot_no_slash: "CHR ''/'' \<notin> set s \<Longrightarrow> splitroot s = []"
  by (cases s) (auto simp: splitroot_def)

lemma Path_simple_name:
  "CHR ''/'' \<notin> set s \<Longrightarrow> s \<noteq> [] \<Longrightarrow> s \<noteq> ''.'' \<Longrightarrow> Path s = PurePath [] [s]"
  by (simp add: Path_def split_sep_no_slash splitroot_no_slash)

lemma truediv_simple_name:
  "CHR ''/'' \<notin> set s \<Longrightarrow> s \<noteq> [] \<Longrightarrow> s \<noteq> ''.'' \<Longrightarrow>
     truediv p s = PurePath (anchor p) (parts p @ [s])"
  by (simp add: truediv_def Path_simple_name)

lemma of_char_digit_char: "d < 10 \<Longrightarrow> (of_char (digit_char d) :: nat) = 48 + d"
  by (simp add: digit_char_def)

lemma digit_char_not_slash: "d < 10 \<Longrightarrow> digit_char d \<noteq> CHR ''/''"
proof
  assume "d < 10" and "digit_char d = CHR ''/''"
  then have "(of_char (CHR ''/'') :: nat) = 48 + d"
    using of_char_digit_char [of d] by simp
  then show False by simp
qed

lemma digits10_no_slash: "CHR ''/'' \<notin> set (digits10 n)"
proof (induction n rule: digits10.induct)
  case (1 n)
  then show ?case
    by (subst digits10.simps) (auto simp: digit_char_not_slash [symmetric])
qed

lemma digits10_nonempty: "digits10 n \<noteq> []"
  by (subst digits10.simps) simp

lemma format_0d_no_slash: "format_0d n p = Inr s \<Longrightarrow> CHR ''/'' \<notin> set s"
  by (auto simp: format_0d_def Let_def digits10_no_slash split: if_splits)

lemma format_0d_nonempty: "format_0d n p = Inr s \<Longrightarrow> s \<noteq> []"
  by (auto simp: format_0d_def Let_def digits10_nonempty split: if_splits)

lemma truediv_prefixed:
  "CHR ''/'' \<notin> set s \<Longrightarrow> s \<noteq> [] \<Longrightarrow>
     truediv p (s @ ''_title.txt'') = PurePath (anchor p) (parts p @ [s @ ''_title.txt'']) \<and>
     truediv p (s @ ''_notes.txt'') = PurePath (anchor p) (parts p @ [s @ ''_notes.txt''])"
  by (cases s) (simp_all add: truediv_simple_name)

lemma aio_write_ok:
  "mkdir_errno fs (parent target) = None \<Longrightarrow> open_errno fs target = None \<Longrightarrow>
   write_errno fs target = None \<Longrightarrow>
   aio_write fs target data ModeW ending =
     (None, fs\<lparr>dirs := dirs fs \<union> set (ancestors (parent target)),
               files := (files fs)(target \<mapsto> data @ ending)\<rparr>)"
  by (simp add: aio_write_def Let_def)

lemma aio_write_errno:
  "mkdir_errno (snd (aio_write fs target data mode ending)) = mkdir_errno fs \<and>
   open_errno (snd (aio_write fs target data mode ending)) = open_errno fs \<and>
   write_errno (snd (aio_write fs target data mode ending)) = write_errno fs"
  by (simp add: aio_write_def Let_def split: option.splits)

lemma aio_write_exn:
  "fst (aio_write fs target data mode ending) =
     (case mkdir_errno fs (parent target) of
        Some e \<Rightarrow> Some (OSError e)
      | None \<Rightarrow>
          (case open_errno fs target of
             Some e \<Rightarrow> Some (OSError e)
           | None \<Rightarrow> (case write_errno fs target of Some e \<Rightarrow> Some (OSError e) | None \<Rightarrow> None)))"
  by (simp add: aio_write_def Let_def split: option.splits)

section \<open>What each method does to the exporter\<close>

lemma add_series_texts_data:
  "p_data (fst (snd (add_series_texts self fs s directory))) =
     (case s of
        None \<Rightarrow> p_data self
      | Some v \<Rightarrow> if v = [] \<or> \<not> p_write_text self then p_data self
                 else (p_data self)\<lparr>summary := v\<rparr>)"
  by (simp add: add_series_texts_def Let_def split: option.splits prod.splits)

lemma add_chapter_details_data:
  "p_data (fst (snd (add_chapter_details self fs chapter notes' padding directory))) =
     (p_data self)\<lparr>chapters := dict_setitem (chapters (p_data self)) (number chapter)
        \<lparr>title = chapter_title chapter, notes = notes'\<rparr>\<rparr>"
  by (simp add: add_chapter_details_def Let_def split: option.splits prod.splits sum.splits)

lemma write_data_self: "fst (snd (write_data self fs directory)) = self"
  by (simp add: write_data_def Let_def split: prod.splits)

lemma add_series_texts_config:
  "config (fst (snd (add_series_texts self fs s directory))) = config self"
  by (simp add: add_series_texts_def config_def Let_def split: option.splits prod.splits)

lemma add_chapter_details_config:
  "config (fst (snd (add_chapter_details self fs chapter notes' padding directory))) = config self"
  by (simp add: add_chapter_details_def config_def Let_def
      split: option.splits prod.splits sum.splits)

lemma do_call_no_duplicate_keys:
  "no_duplicate_keys (p_data self) \<Longrightarrow> no_duplicate_keys (p_data (fst (snd (do_call (self, fs) c))))"
  by (cases c)
    (auto simp: no_duplicate_keys_def add_series_texts_data add_chapter_details_data
      write_data_self distinct_dict_setitem split: option.splits)

lemma run_calls_snoc:
  "run_calls fmt d fs (calls @ [c]) = snd (do_call (run_calls fmt d fs calls) c)"
  by (simp add: run_calls_def)

lemma run_calls_no_duplicate_keys:
  "no_duplicate_keys (p_data (fst (run_calls fmt d fs calls)))"
proof (induction calls rule: rev_induct)
  case Nil
  show ?case by (simp add: run_calls_def post_init_def no_duplicate_keys_def)
next
  case (snoc c calls)
  obtain self fs' where st: "run_calls fmt d fs calls = (self, fs')"
    by (cases "run_calls fmt d fs calls")
  with snoc have "no_duplicate_keys (p_data self)" by simp
  then have "no_duplicate_keys (p_data (fst (snd (do_call (self, fs') c))))"
    by (rule do_call_no_duplicate_keys)
  then show ?case by (simp add: run_calls_snoc st)
qed

lemma permits_aio_write:
  "permits (snd (aio_write fs target data mode ending)) p = permits fs p"
  by (simp add: permits_def aio_write_errno)

lemma aio_write_permits:
  "permits fs target \<Longrightarrow>
   aio_write fs target data ModeW ending =
     (None, fs\<lparr>dirs := dirs fs \<union> set (ancestors (parent target)),
               files := (files fs)(target \<mapsto> data @ ending)\<rparr>)"
  by (simp add: permits_def aio_write_ok)

lemma title_notes_paths_differ:
  "format_0d n p = Inr s \<Longrightarrow> truediv d (s @ ''_title.txt'') \<noteq> truediv d (s @ ''_notes.txt'')"
  using truediv_prefixed [of s d] format_0d_no_slash [of n p s] format_0d_nonempty [of n p s]
  by simp

lemma add_chapter_details_disabled:
  "\<not> p_write_text self \<Longrightarrow>
   add_chapter_details self fs chapter notes' padding directory =
     (None, fst (snd (add_chapter_details self fs chapter notes' padding directory)), fs)"
  by (simp add: add_chapter_details_def Let_def)

lemma resolve_directory_data [simp]:
  "resolve_directory (self\<lparr>p_data := d\<rparr>) directory = resolve_directory self directory"
  by (simp add: resolve_directory_def split: option.splits)

lemma add_chapter_details_enabled:
  assumes "p_write_text self" and "format_0d (number chapter) padding = Inr prefix"
  shows "snd (snd (add_chapter_details self fs chapter notes' padding directory)) =
           (let t = aio_write fs (truediv (resolve_directory self directory) (prefix @ ''_title.txt''))
                      (chapter_title chapter) ModeW newline
            in if fst t = None \<and> notes' \<noteq> []
               then snd (aio_write (snd t)
                      (truediv (resolve_directory self directory) (prefix @ ''_notes.txt''))
                      notes' ModeW newline)
               else snd t)"
    and "fst (add_chapter_details self fs chapter notes' padding directory) =
           (let t = aio_write fs (truediv (resolve_directory self directory) (prefix @ ''_title.txt''))
                      (chapter_title chapter) ModeW newline
            in if fst t = None \<and> notes' \<noteq> []
               then fst (aio_write (snd t)
                      (truediv (resolve_directory self directory) (prefix @ ''_notes.txt''))
                      notes' ModeW newline)
               else fst t)"
  using assms
  by (simp_all add: add_chapter_details_def Let_def split: prod.splits option.splits)

lemma digits10_range: "c \<in> set (digits10 n) \<Longrightarrow> 48 \<le> (of_char c :: nat) \<and> (of_char c :: nat) \<le> 57"
proof (induction n rule: digits10.induct)
  case (1 n)
  from "1.prems" consider "n < 10" "c = digit_char n"
    | "\<not> n < 10" "c \<in> set (digits10 (n div 10))"
    | "\<not> n < 10" "c = digit_char (n mod 10)"
    by (subst (asm) digits10.simps) (auto split: if_splits)
  then show ?case
  proof cases
    case 1
    then show ?thesis by (simp add: of_char_digit_char)
  next
    case 2
    then show ?thesis using "1.IH" by simp
  next
    case 3
    then show ?thesis by (simp add: of_char_digit_char)
  qed
qed

lemma digits10_no_sign: "digits10 n \<noteq> CHR ''-'' # cs \<and> digits10 n \<noteq> CHR ''+'' # cs"
proof -
  have "\<not> (48 \<le> (of_char (CHR ''-'') :: nat))" and "\<not> (48 \<le> (of_char (CHR ''+'') :: nat))"
    by simp_all
  then have "CHR ''-'' \<notin> set (digits10 n)" and "CHR ''+'' \<notin> set (digits10 n)"
    using digits10_range by blast+
  then show ?thesis
    by (metis list.set_intros(1))
qed

lemma zfill_format_0d: "0 \<le> p \<Longrightarrow> format_0d n p = Inr (zfill (nat p) (str_int n))"
  by (auto simp: format_0d_def zfill_def str_int_def Let_def digits10_nonempty digits10_no_sign
      split: list.splits)

lemma add_chapter_details_written:
  assumes w: "p_write_text self" and f: "format_0d (number chapter) padding = Inr prefix"
    and pt: "permits fs (truediv (resolve_directory self directory) (prefix @ ''_title.txt''))"
    and pn: "notes' \<noteq> [] \<longrightarrow>
               permits fs (truediv (resolve_directory self directory) (prefix @ ''_notes.txt''))"
  shows "fst (add_chapter_details self fs chapter notes' padding directory) = None \<and>
      files (snd (snd (add_chapter_details self fs chapter notes' padding directory))) =
        (if notes' = []
         then (files fs)
                (truediv (resolve_directory self directory) (prefix @ ''_title.txt'')
                   \<mapsto> chapter_title chapter @ newline)
         else (files fs)
                (truediv (resolve_directory self directory) (prefix @ ''_title.txt'')
                   \<mapsto> chapter_title chapter @ newline,
                 truediv (resolve_directory self directory) (prefix @ ''_notes.txt'')
                   \<mapsto> notes' @ newline)) \<and>
      truediv (resolve_directory self directory) (prefix @ ''_title.txt'')
        \<noteq> truediv (resolve_directory self directory) (prefix @ ''_notes.txt'')"
proof -
  let ?tp = "truediv (resolve_directory self directory) (prefix @ ''_title.txt'')"
  let ?np = "truediv (resolve_directory self directory) (prefix @ ''_notes.txt'')"
  let ?t = "aio_write fs ?tp (chapter_title chapter) ModeW newline"
  have t: "?t = (None, fs\<lparr>dirs := dirs fs \<union> set (ancestors (parent ?tp)),
               files := (files fs)(?tp \<mapsto> chapter_title chapter @ newline)\<rparr>)"
    using pt by (rule aio_write_permits)
  have ne: "?tp \<noteq> ?np"
    using f by (rule title_notes_paths_differ)
  show ?thesis
  proof (cases "notes' = []")
    case True
    with t ne show ?thesis
      by (simp add: add_chapter_details_enabled [OF w f])
  next
    case False
    with pn have "permits (snd ?t) ?np"
      by (simp add: permits_aio_write)
    then have "aio_write (snd ?t) ?np notes' ModeW newline =
        (None, (snd ?t)\<lparr>dirs := dirs (snd ?t) \<union> set (ancestors (parent ?np)),
               files := (files (snd ?t))(?np \<mapsto> notes' @ newline)\<rparr>)"
      by (rule aio_write_permits)
    with False t ne show ?thesis
      by (simp add: add_chapter_details_enabled [OF w f])
  qed
qed

lemma add_chapter_details_record:
  "dict_get (chapters (p_data (fst (snd (add_chapter_details self fs chapter notes' padding directory)))))
      (number chapter) = Some \<lparr>title = chapter_title chapter, notes = notes'\<rparr>"
  by (simp add: add_chapter_details_data dict_get_setitem)


lemma write_data_permits:
  "p_write_json self \<Longrightarrow> permits fs (truediv (resolve_directory self directory) ''info.json'') \<Longrightarrow>
   write_data self fs directory =
     (None, self,
      fs\<lparr>dirs := dirs fs \<union> set (ancestors (parent (truediv (resolve_directory self directory) ''info.json''))),
         files := (files fs)(truediv (resolve_directory self directory) ''info.json''
                    \<mapsto> json_dumps (data_obj (p_data self)))\<rparr>)"
  by (simp add: write_data_def Let_def aio_write_permits)

lemma write_data_off: "\<not> p_write_json self \<Longrightarrow> write_data self fs directory = (None, self, fs)"
  by (simp add: write_data_def)

lemma write_data_exn:
  "p_write_json self \<Longrightarrow>
   fst (write_data self fs directory) =
     fst (aio_write fs (truediv (resolve_directory self directory) ''info.json'')
            (json_dumps (data_obj (p_data self))) ModeW [])"
  by (simp add: write_data_def Let_def split: prod.splits)

lemma add_series_texts_exn:
  "s \<noteq> [] \<Longrightarrow> p_write_text self \<Longrightarrow>
   fst (add_series_texts self fs (Some s) directory) =
     fst (aio_write fs (truediv (resolve_directory self directory) ''summary.txt'') s ModeW newline) \<and>
   snd (snd (add_series_texts self fs (Some s) directory)) =
     snd (aio_write fs (truediv (resolve_directory self directory) ''summary.txt'') s ModeW newline)"
  by (simp add: add_series_texts_def Let_def split: prod.splits)

lemma length_zfill: "length (zfill w s) = max w (length s)"
  by (auto simp: zfill_def split: list.splits)

lemma zfill_unsigned:
  "s \<noteq> [] \<Longrightarrow> hd s \<noteq> CHR ''-'' \<Longrightarrow> hd s \<noteq> CHR ''+'' \<Longrightarrow>
     zfill w s = replicate (w - length s) (CHR ''0'') @ s"
  by (auto simp: zfill_def split: list.splits)

lemma zfill_str_int_nonneg:
  "0 \<le> n \<Longrightarrow> zfill w (str_int n) = replicate (w - length (str_int n)) (CHR ''0'') @ str_int n"
  using digits10_no_sign [of "nat n" "tl (digits10 (nat n))"] digits10_nonempty [of "nat n"]
  by (intro zfill_unsigned) (auto simp: str_int_def neq_Nil_conv)

lemma add_chapter_details_title_fails:
  assumes "p_write_text self" and "format_0d (number chapter) padding = Inr prefix"
    and "fst (aio_write fs (truediv (resolve_directory self directory) (prefix @ ''_title.txt''))
                (chapter_title chapter) ModeW newline) = Some e"
  shows "fst (add_chapter_details self fs chapter notes' padding directory) = Some e \<and>
     snd (snd (add_chapter_details self fs chapter notes' padding directory)) =
       snd (aio_write fs (truediv (resolve_directory self directory) (prefix @ ''_title.txt''))
              (chapter_title chapter) ModeW newline)"
  using assms by (simp add: add_chapter_details_enabled)

lemma add_chapter_details_notes_fails:
  assumes "p_write_text self" and "format_0d (number chapter) padding = Inr prefix"
    and "fst (aio_write fs (truediv (resolve_directory self directory) (prefix @ ''_title.txt''))
                (chapter_title chapter) ModeW newline) = None"
    and "notes' \<noteq> []"
  shows "fst (add_chapter_details self fs chapter notes' padding directory) =
       fst (aio_write
              (snd (aio_write fs (truediv (resolve_directory self directory) (prefix @ ''_title.txt''))
                 (chapter_title chapter) ModeW newline))
              (truediv (resolve_directory self directory) (prefix @ ''_notes.txt''))
              notes' ModeW newline)"
  using assms by (simp add: add_chapter_details_enabled)

section \<open>The layout of the serialization\<close>

lemma insort_key_map_snd:
  "insort_key fst (k, f v) (map (\<lambda>(n, c). (n, f c)) xs) = map (\<lambda>(n, c). (n, f c)) (insort_key fst (k, v) xs)"
  by (induction xs) auto

lemma sort_key_map_snd:
  "sort_key fst (map (\<lambda>(n, c). (n, f c)) xs) = map (\<lambda>(n, c). (n, f c)) (sort_key fst xs)"
  by (induction xs) (auto simp: insort_key_map_snd)

lemma escape_char_plain:
  "0x20 \<le> (of_char c :: nat) \<Longrightarrow> (of_char c :: nat) \<le> 0x7E \<Longrightarrow> c \<noteq> bslash \<Longrightarrow> c \<noteq> dquote \<Longrightarrow>
     escape_char c = [c]"
  by (auto simp: escape_char_def)

lemma concat_map_singleton: "(\<And>c. c \<in> set s \<Longrightarrow> f c = [c]) \<Longrightarrow> concat (map f s) = s"
  by (induction s) auto

lemma escape_digits10: "concat (map escape_char (digits10 n)) = digits10 n"
proof (rule concat_map_singleton)
  fix c assume "c \<in> set (digits10 n)"
  then have r: "48 \<le> (of_char c :: nat) \<and> (of_char c :: nat) \<le> 57"
    by (rule digits10_range)
  then have "c \<noteq> bslash" and "c \<noteq> dquote"
    by (auto simp: bslash_def dquote_def)
  with r show "escape_char c = [c]"
    by (intro escape_char_plain) simp_all
qed

lemma encode_str_int: "encode_basestring_ascii (str_int n) = quoted (str_int n)"
proof -
  have "escape_char (CHR ''-'') = ''-''"
    by (simp add: escape_char_def bslash_def dquote_def)
  then show ?thesis
    by (simp add: encode_basestring_ascii_def quoted_def str_int_def escape_digits10)
qed

lemma encode_fixed_keys:
  "encode_basestring_ascii ''chapters'' = quoted ''chapters''"
  "encode_basestring_ascii ''summary'' = quoted ''summary''"
  "encode_basestring_ascii ''title'' = quoted ''title''"
  "encode_basestring_ascii ''notes'' = quoted ''notes''"
  by (simp_all add: encode_basestring_ascii_def quoted_def escape_char_def bslash_def dquote_def)

lemma newline_indent_indent: "newline_indent lvl = newline @ indent lvl"
  by (simp add: newline_indent_def indent_def)

lemma iterencode_chapter_obj: "iterencode 2 (chapter_obj c) = record_json c"
  by (simp add: chapter_obj_def record_json_def iterencode_dict_def encode_fixed_keys
      newline_indent_indent)

lemma iterencode_chapters:
  "iterencode 1 (PyDictI (map (\<lambda>(n, c). (n, chapter_obj c)) items)) =
     chapters_json (sort_key fst items)"
proof -
  have m: "map (\<lambda>(k, v). k @ '': '' @ v)
          (map (\<lambda>kv. (encode_basestring_ascii (str_int (fst kv)), iterencode 2 (snd kv)))
             (map (\<lambda>(n, c). (n, chapter_obj c)) xs))
        = map (\<lambda>(n, c). quoted (str_int n) @ '': '' @ record_json c) xs" for xs
    by (induction xs) (auto simp: encode_str_int iterencode_chapter_obj)
  have "iterencode 1 (PyDictI (map (\<lambda>(n, c). (n, chapter_obj c)) items)) =
      iterencode_dict 1
        (map (\<lambda>kv. (encode_basestring_ascii (str_int (fst kv)), iterencode 2 (snd kv)))
           (map (\<lambda>(n, c). (n, chapter_obj c)) (sort_key fst items)))"
    by (simp add: sort_key_map_snd numeral_2_eq_2)
  also have "\<dots> = chapters_json (sort_key fst items)"
    unfolding iterencode_dict_def chapters_json_def m newline_indent_indent
    by (simp add: numeral_2_eq_2)
  finally show ?thesis .
qed

lemma iterencode_top:
  "iterencode 0 (PyDictS [(''chapters'', ch), (''summary'', PyStr s)]) =
     ''{'' @ newline
       @ indent 1 @ quoted ''chapters'' @ '': '' @ iterencode 1 ch
       @ '','' @ newline
       @ indent 1 @ quoted ''summary'' @ '': '' @ encode_basestring_ascii s @ newline
       @ ''}''"
  by (simp add: iterencode_dict_def encode_fixed_keys newline_indent_indent indent_def)

lemma json_dumps_data_obj: "json_dumps (data_obj d) = info_json d"
  unfolding json_dumps_def data_obj_def info_json_def iterencode_top iterencode_chapters ..

lemma last_info_json: "last (info_json d) = CHR ''}''"
  by (simp add: info_json_def)

lemma resolve_directory_cases:
  "resolve_directory self None = p_dest self \<and>
   resolve_directory self (Some []) = p_dest self \<and>
   (d \<noteq> [] \<longrightarrow> resolve_directory self (Some d) = Path d)"
  by (simp add: resolve_directory_def)

lemma write_data_files:
  "p_write_json self \<Longrightarrow> permits fs (truediv (resolve_directory self directory) ''info.json'') \<Longrightarrow>
     fst (write_data self fs directory) = None \<and>
     files (snd (snd (write_data self fs directory))) =
       (files fs)(truediv (resolve_directory self directory) ''info.json'' \<mapsto> info_json (p_data self))"
  by (simp add: write_data_permits json_dumps_data_obj)

section \<open>Calls one after the other\<close>

lemma add_chapter_details_write_text:
  "p_write_text (fst (snd (add_chapter_details self fs chapter notes' padding directory)))
     = p_write_text self"
  using add_chapter_details_config [of self fs "chapter" "notes'" padding directory]
  by (simp add: config_def)

lemma do_call_unfold:
  "do_call st (AddSeriesTexts s directory) = add_series_texts (fst st) (snd st) s directory"
  "do_call st (AddChapterDetails c n padding directory)
     = add_chapter_details (fst st) (snd st) c n padding directory"
  "do_call st (WriteData directory) = write_data (fst st) (snd st) directory"
  by (cases st; simp)+

section \<open>Escapes written and read\<close>





lemma scan_string_quote: "scan_string (dquote # t) = Some ([], t)"
  by simp

lemma scan_string_short:
  "e \<noteq> CHR ''u'' \<Longrightarrow> unescape e = Some x \<Longrightarrow>
     scan_string (bslash # e # t) = cons_result (of_char x) (scan_string t)"
  by (simp add: bslash_def dquote_def)















section \<open>Parsing what was serialized\<close>















lemma sort_key_map_fst:
  assumes "\<And>x. fst (h x) = fst x"
  shows "sort_key fst (map h xs) = map h (sort_key fst xs)"
proof (induction xs)
  case Nil
  show ?case by simp
next
  case (Cons x xs)
  have "insort_key fst (h x) (map h ys) = map h (insort_key fst x ys)" for ys
    by (induction ys) (simp_all add: assms)
  with Cons show ?case by simp
qed

lemma sort_key_map_prod:
  "sort_key fst (map (map_prod id g) xs) = map (map_prod id g) (sort_key fst xs)"
  by (rule sort_key_map_fst) (simp add: split_def)


lemma of_char_less_256: "(of_char (c :: char) :: nat) < 256"
  by (metis of_char_mod_256 mod_less_divisor zero_less_numeral)

lemma no_surrogate_pair_no_high:
  "(\<And>n. n \<in> set s \<Longrightarrow> \<not> is_high_surrogate n) \<Longrightarrow> no_surrogate_pair s"
  by (induction s rule: no_surrogate_pair.induct) auto

lemma plain_str_code_points: "plain_str (code_points s)"
proof -
  have "n < 256" if "n \<in> set (code_points s)" for n
    using that of_char_less_256 by (auto simp: code_points_def)
  then have "is_str (code_points s)" and "\<And>n. n \<in> set (code_points s) \<Longrightarrow> \<not> is_high_surrogate n"
    by (fastforce simp: is_str_def list_all_iff is_high_surrogate_def)+
  then show ?thesis
    by (simp add: plain_str_def no_surrogate_pair_no_high)
qed





section \<open>Reading the numbers and the records back\<close>
















lemma plain_data_str_data: "plain_data d \<Longrightarrow> str_data d"
  by (auto simp: plain_data_def str_data_def plain_str_def list_all_iff)

section \<open>The aggregate after any calls\<close>

lemma run_calls_u_snoc:
  "run_calls_u fmt (calls @ [c])
     = do_call_u (fmt \<in> set [FormatText, FormatAll]) (run_calls_u fmt calls) c"
  by (simp add: run_calls_u_def)








section \<open>The two models agree on texts of 8-bit characters\<close>

lemma hex4_digits_of_char:
  "hex4_digits (of_char c)
     = [CHR ''0'', CHR ''0'', hex_digit ((of_char c :: nat) div 16), hex_digit ((of_char c :: nat) mod 16)]"
proof -
  have lt: "(of_char c :: nat) < 256"
    by (rule of_char_less_256)
  then have "(of_char c :: nat) < 4096"
    by linarith
  then have "(of_char c :: nat) div 4096 = 0"
    by (rule div_less)
  moreover have "(of_char c :: nat) div 16 < 16" "(of_char c :: nat) div 256 = 0"
    using lt by (simp_all add: less_mult_imp_div_less)
  moreover have "hex_digit 0 = CHR ''0''"
    unfolding hex_digit_def by code_simp
  ultimately show ?thesis
    by (simp add: hex4_digits_def)
qed

lemma of_char_eq_numeral: "((of_char c :: nat) = of_char d) = (c = d)"
  by simp

lemma escape_code_point_of_char: "escape_code_point (of_char c) = escape_char c"
proof -
  have eq: "((of_char c :: nat) = 0x5C) = (c = bslash)" "((of_char c :: nat) = 0x22) = (c = dquote)"
    "((of_char c :: nat) = 0x08) = (c = CHR 0x08)" "((of_char c :: nat) = 0x0C) = (c = CHR 0x0C)"
    "((of_char c :: nat) = 0x0A) = (c = CHR 0x0A)" "((of_char c :: nat) = 0x0D) = (c = CHR 0x0D)"
    "((of_char c :: nat) = 0x09) = (c = CHR 0x09)"
    using of_char_eq_numeral [of c bslash] of_char_eq_numeral [of c dquote]
      of_char_eq_numeral [of c "CHR 0x08"] of_char_eq_numeral [of c "CHR 0x0C"]
      of_char_eq_numeral [of c "CHR 0x0A"] of_char_eq_numeral [of c "CHR 0x0D"]
      of_char_eq_numeral [of c "CHR 0x09"]
    by (simp_all add: bslash_def dquote_def)
  have "(of_char c :: nat) < 256"
    by (rule of_char_less_256)
  then have lt: "(of_char c :: nat) < 0x10000"
    by linarith
  show ?thesis
    unfolding escape_code_point_def escape_char_def eq
    using lt by (simp add: hex4_digits_of_char)
qed

lemma encode_ustr_code_points: "encode_ustr (code_points s) = encode_basestring_ascii s"
  by (simp add: encode_ustr_def encode_basestring_ascii_def code_points_def
      escape_code_point_of_char o_def)

lemma code_points_le: "code_points a \<le> code_points b \<longleftrightarrow> a \<le> b"
proof (induction a arbitrary: b)
  case Nil
  show ?case by (simp add: code_points_def)
next
  case (Cons x a)
  show ?case
  proof (cases b)
    case Nil
    then show ?thesis by (simp add: code_points_def)
  next
    case (Cons y b')
    have "(of_char x :: nat) < of_char y \<longleftrightarrow> x < y"
      by (simp add: less_char_def)
    with Cons.IH [of b'] Cons show ?thesis
      by (simp add: code_points_def)
  qed
qed

lemma sort_key_map_mono:
  assumes "\<And>x y. fst (h x) \<le> fst (h y) \<longleftrightarrow> fst x \<le> fst y"
  shows "sort_key fst (map h xs) = map h (sort_key fst xs)"
proof (induction xs)
  case Nil
  show ?case by simp
next
  case (Cons x xs)
  have "insort_key fst (h x) (map h ys) = map h (insort_key fst x ys)" for ys
    by (induction ys) (simp_all add: assms)
  with Cons show ?case by simp
qed

lemma sort_key_code_points:
  "sort_key fst (map (map_prod code_points g) xs) = map (map_prod code_points g) (sort_key fst xs)"
  by (rule sort_key_map_mono) (simp add: code_points_le)

lemma iterencode_u_obj_u: "iterencode_u lvl (obj_u obj) = iterencode lvl obj"
proof (induction lvl obj rule: iterencode.induct)
  case (1 lvl s)
  show ?case
    by (simp add: encode_ustr_code_points)
next
  case (2 lvl items)
  have "map (\<lambda>kv. (encode_ustr (fst kv), iterencode_u (Suc lvl) (snd kv)))
          (map (map_prod code_points obj_u) (sort_key fst items))
      = map (\<lambda>kv. (encode_basestring_ascii (fst kv), iterencode (Suc lvl) (snd kv))) (sort_key fst items)"
    using 2 by (simp add: encode_ustr_code_points)
  then show ?case
    by (simp only: obj_u.simps iterencode_u.simps iterencode.simps sort_key_code_points)
next
  case (3 lvl items)
  have "map (\<lambda>kv. (encode_ustr (code_points (str_int (fst kv))), iterencode_u (Suc lvl) (snd kv)))
          (map (map_prod id obj_u) (sort_key fst items))
      = map (\<lambda>kv. (encode_basestring_ascii (str_int (fst kv)), iterencode (Suc lvl) (snd kv)))
          (sort_key fst items)"
    using 3 by (simp add: encode_ustr_code_points)
  then show ?case
    by (simp only: obj_u.simps iterencode_u.simps iterencode.simps sort_key_map_prod)
qed

lemma data_obj_u_data_u: "data_obj_u (data_u d) = obj_u (data_obj d)"
  by (simp add: data_obj_u_def data_u_def data_obj_def chapter_obj_u_def chapter_data_u_def
      chapter_obj_def split_def)

lemma json_dumps_u_data_u: "json_dumps_u (data_obj_u (data_u d)) = json_dumps (data_obj d)"
  by (simp add: json_dumps_u_def json_dumps_def data_obj_u_data_u iterencode_u_obj_u)

lemma dict_setitem_map:
  "dict_setitem (map (\<lambda>(n, c). (n, g c)) kvs) k (g v) = map (\<lambda>(n, c). (n, g c)) (dict_setitem kvs k v)"
  by (induction kvs k v rule: dict_setitem.induct) auto

lemma code_points_eq_Nil: "code_points s = [] \<longleftrightarrow> s = []"
  by (simp add: code_points_def)

lemma run_calls_config: "config (fst (run_calls fmt d fs calls)) = config (post_init fmt d)"
proof (induction calls rule: rev_induct)
  case Nil
  show ?case by (simp add: run_calls_def)
next
  case (snoc c calls)
  then show ?case
    by (cases c)
      (simp_all add: run_calls_snoc do_call_unfold add_series_texts_config
        add_chapter_details_config write_data_self)
qed

lemma run_calls_write_text:
  "p_write_text (fst (run_calls fmt d fs calls)) = (fmt \<in> set [FormatText, FormatAll])"
  using run_calls_config [of fmt d fs calls] by (simp add: config_def post_init_def)

lemma run_calls_write_json:
  "p_write_json (fst (run_calls fmt d fs calls)) = (fmt \<in> set [FormatJson, FormatAll])"
  using run_calls_config [of fmt d fs calls] by (simp add: config_def post_init_def)

lemma run_calls_u_call_u:
  "run_calls_u fmt (map call_u calls) = data_u (p_data (fst (run_calls fmt d fs calls)))"
proof (induction calls rule: rev_induct)
  case Nil
  show ?case
    by (simp add: run_calls_u_def run_calls_def post_init_def data_u_def code_points_def)
next
  case (snoc c calls)
  let ?self = "fst (run_calls fmt d fs calls)"
  have w: "p_write_text ?self = (fmt \<in> set [FormatText, FormatAll])"
    by (rule run_calls_write_text)
  have "do_call_u (fmt \<in> set [FormatText, FormatAll]) (data_u (p_data ?self)) (call_u c)
      = data_u (p_data (fst (snd (do_call (run_calls fmt d fs calls) c))))"
  proof (cases c)
    case (AddSeriesTexts s directory)
    then show ?thesis
      unfolding w [symmetric]
      by (cases s)
        (simp_all add: do_call_unfold add_series_texts_data data_u_def code_points_eq_Nil)
  next
    case (AddChapterDetails ch n padding directory)
    have "dict_setitem (map (\<lambda>(n, c). (n, chapter_data_u c)) (chapters (p_data ?self))) (number ch)
            (chapter_data_u \<lparr>title = chapter_title ch, notes = n\<rparr>)
        = map (\<lambda>(n, c). (n, chapter_data_u c))
            (dict_setitem (chapters (p_data ?self)) (number ch) \<lparr>title = chapter_title ch, notes = n\<rparr>)"
      by (rule dict_setitem_map)
    then show ?thesis
      by (simp add: AddChapterDetails do_call_unfold add_chapter_details_data data_u_def
          chapter_data_u_def)
  next
    case (WriteData directory)
    then show ?thesis
      by (simp add: do_call_unfold write_data_self)
  qed
  with snoc show ?case
    by (simp add: run_calls_u_snoc run_calls_snoc)
qed

lemma plain_call_call_u: "plain_call (call_u c)"
  by (cases c) (auto simp: plain_str_code_points split: option.splits)

lemma write_data_write_data_u:
  assumes "run_calls fmt d fs calls = (self, fs1)"
    and "p_write_json self"
    and "permits fs1 (truediv (resolve_directory self directory) ''info.json'')"
  shows "files (snd (snd (write_data self fs1 directory)))
           (truediv (resolve_directory self directory) ''info.json'')
         = write_data_u fmt (run_calls_u fmt (map call_u calls))"
proof -
  have "fmt \<in> set [FormatJson, FormatAll]"
    using run_calls_write_json [of fmt d fs calls] assms(1, 2) by simp
  moreover have "run_calls_u fmt (map call_u calls) = data_u (p_data self)"
    using run_calls_u_call_u [of fmt calls d fs] assms(1) by simp
  ultimately show ?thesis
    using assms(2, 3) by (simp add: write_data_u_def json_dumps_u_data_u write_data_permits)
qed

section \<open>Claims\<close>

text \<open>
  C1. The spec: for every export format and every non-empty summary, \<open>add_series_texts\<close>
  sets the aggregate's summary to that string, whether or not the format enables text
  output. The code returns before the assignment when text output is disabled: with the
  format \<^verbatim>\<open>json\<close> the call changes nothing and the summary of a fresh exporter stays
  empty, whatever summary is supplied.
\<close>

theorem add_series_texts_json_keeps_summary_empty:
  "add_series_texts (post_init FormatJson d) fs (Some s) directory
     = (None, post_init FormatJson d, fs) \<and>
   summary (p_data (fst (snd (add_series_texts (post_init FormatJson d) fs (Some s) directory))))
     = []"
  by (simp add: add_series_texts_def post_init_def)

theorem add_series_texts_json_keeps_summary_empty_witness:
  "add_series_texts (post_init FormatJson ''out'') empty_fs (Some ''abc'') None
     = (None, post_init FormatJson ''out'', empty_fs) \<and>
   summary (p_data (fst (snd (add_series_texts (post_init FormatJson ''out'') empty_fs
       (Some ''abc'') None)))) \<noteq> ''abc''"
  using add_series_texts_json_keeps_summary_empty [of "''out''" empty_fs "''abc''" None]
  by (simp add: post_init_def)

text \<open>
  C2. The spec: \<open>write_data\<close> serializes the aggregate with the keys sorted
  lexicographically. The chapter keys are not: \<^verbatim>\<open>json.dumps\<close> sorts the items of a
  dictionary by their keys before it renders the keys, so chapter numbers come in
  increasing numeric order. With the chapters 10 and 2 the key \<^verbatim>\<open>"2"\<close> is written before
  the key \<^verbatim>\<open>"10"\<close>, and \<^verbatim>\<open>"10"\<close> is the smaller string.
\<close>

theorem info_json_chapter_keys_not_lexicographic:
  "json_dumps (data_obj \<lparr>chapters = [(10, \<lparr>title = [], notes = []\<rparr>), (2, \<lparr>title = [], notes = []\<rparr>)],
                         summary = []\<rparr>) =
     ''{'' @ newline @
     ''    '' @ quoted ''chapters'' @ '': {'' @ newline @
     ''        '' @ quoted ''2'' @ '': {'' @ newline @
     ''            '' @ quoted ''notes'' @ '': '' @ quoted [] @ '','' @ newline @
     ''            '' @ quoted ''title'' @ '': '' @ quoted [] @ newline @
     ''        },'' @ newline @
     ''        '' @ quoted ''10'' @ '': {'' @ newline @
     ''            '' @ quoted ''notes'' @ '': '' @ quoted [] @ '','' @ newline @
     ''            '' @ quoted ''title'' @ '': '' @ quoted [] @ newline @
     ''        }'' @ newline @
     ''    },'' @ newline @
     ''    '' @ quoted ''summary'' @ '': '' @ quoted [] @ newline @
     ''}'' \<and>
   \<not> sorted [''2'', ''10'']"
  by code_simp

text \<open>
  C2, as amended. With JSON output disabled \<open>write_data\<close> does nothing. Otherwise, when
  the operating system refuses nothing, it raises nothing and leaves the files of before
  with \<^verbatim>\<open><directory-or-default>/info.json\<close> holding the serialization of the whole
  aggregate, whatever the file held: the object \<open>{chapters, summary}\<close> with these two
  keys and the keys \<^verbatim>\<open>notes\<close>, \<^verbatim>\<open>title\<close> of each record in lexicographic order, the
  chapters in increasing order of their numbers, each under its number written by
  \<open>str\<close>, four spaces per level, and \<^verbatim>\<open>}\<close> as the last character (no newline).
\<close>

theorem write_data_writes_info_json:
  "(\<not> p_write_json self \<longrightarrow> write_data self fs directory = (None, self, fs)) \<and>
   (p_write_json self \<and>
    permits fs (truediv (resolve_directory self directory) ''info.json'') \<longrightarrow>
      fst (write_data self fs directory) = None \<and>
      files (snd (snd (write_data self fs directory))) =
        (files fs)(truediv (resolve_directory self directory) ''info.json''
                     \<mapsto> info_json (p_data self))) \<and>
   truediv (resolve_directory self directory) ''info.json'' =
     PurePath (anchor (resolve_directory self directory))
       (parts (resolve_directory self directory) @ [''info.json'']) \<and>
   resolve_directory self None = p_dest self \<and>
   resolve_directory self (Some []) = p_dest self \<and>
   (d \<noteq> [] \<longrightarrow> resolve_directory self (Some d) = Path d) \<and>
   json_dumps (data_obj (p_data self)) = info_json (p_data self) \<and>
   sorted (map fst (sort_key fst (chapters (p_data self)))) \<and>
   set (sort_key fst (chapters (p_data self))) = set (chapters (p_data self)) \<and>
   length (sort_key fst (chapters (p_data self))) = length (chapters (p_data self)) \<and>
   last (info_json (p_data self)) = CHR ''}''"
  using write_data_off [of self fs directory] write_data_files [of self fs directory]
    resolve_directory_cases [of self d]
    truediv_simple_name [of "''info.json''" "resolve_directory self directory"]
  by (simp add: json_dumps_data_obj last_info_json)

theorem write_data_writes_info_json_witness:
  "write_data (post_init FormatText ''out'') empty_fs None
     = (None, post_init FormatText ''out'', empty_fs) \<and>
   files (snd (snd (write_data
      ((post_init FormatJson ''out'')
         \<lparr>p_data := \<lparr>chapters = [(10, \<lparr>title = ''b'', notes = []\<rparr>), (2, \<lparr>title = ''a'', notes = ''n''\<rparr>)],
                     summary = ''s''\<rparr>\<rparr>)
      (empty_fs\<lparr>files := [PurePath [] [''out'', ''info.json''] \<mapsto> ''old'']\<rparr>) None)))
     = [PurePath [] [''out'', ''info.json''] \<mapsto>
          info_json \<lparr>chapters = [(10, \<lparr>title = ''b'', notes = []\<rparr>), (2, \<lparr>title = ''a'', notes = ''n''\<rparr>)],
                     summary = ''s''\<rparr>] \<and>
   sort_key fst [(10 :: int, \<lparr>title = ''b'', notes = []\<rparr>), (2, \<lparr>title = ''a'', notes = ''n''\<rparr>)]
     = [(2, \<lparr>title = ''a'', notes = ''n''\<rparr>), (10, \<lparr>title = ''b'', notes = []\<rparr>)]"
proof -
  have w: "\<not> p_write_json (post_init FormatText ''out'')"
    "p_write_json (post_init FormatJson ''out'')"
    by (simp_all add: post_init_def)
  have d: "resolve_directory (post_init FormatJson ''out'') None = PurePath [] [''out'']"
    by (simp add: resolve_directory_def post_init_def Path_def splitroot_def)
  have t: "truediv (PurePath [] [''out'']) ''info.json'' = PurePath [] [''out'', ''info.json'']"
    by (simp add: truediv_simple_name)
  have p: "permits (empty_fs\<lparr>files := m\<rparr>) q" for q m
    by (simp add: permits_def empty_fs_def)
  show ?thesis
    using write_data_writes_info_json [of "post_init FormatText ''out''" empty_fs None "''x''"]
      write_data_writes_info_json [of
        "(post_init FormatJson ''out'')
           \<lparr>p_data := \<lparr>chapters = [(10, \<lparr>title = ''b'', notes = []\<rparr>), (2, \<lparr>title = ''a'', notes = ''n''\<rparr>)],
                       summary = ''s''\<rparr>\<rparr>"
        "empty_fs\<lparr>files := [PurePath [] [''out'', ''info.json''] \<mapsto> ''old'']\<rparr>" None "''x''"]
    by (simp add: w d p t)
qed



text \<open>
  C4. The keys of \<open>chapters\<close> are pairwise distinct in every state a caller can reach,
  every method keeps them so, and after \<open>add_chapter_details\<close> the only item under the
  chapter's number is the record just given: the earlier record is replaced, not merged.
\<close>

theorem chapters_keys_unique:
  "no_duplicate_keys (p_data (fst (run_calls fmt d fs calls))) \<and>
   (no_duplicate_keys (p_data self) \<longrightarrow>
      no_duplicate_keys (p_data (fst (snd (do_call (self, fs') c))))) \<and>
   filter (\<lambda>kv. fst kv = number chapter)
     (chapters (p_data (fst (snd (add_chapter_details (fst (run_calls fmt d fs calls)) fs''
        chapter notes' padding directory)))))
     = [(number chapter, \<lparr>title = chapter_title chapter, notes = notes'\<rparr>)]"
proof -
  have reach: "no_duplicate_keys (p_data (fst (run_calls fmt d fs calls)))"
    by (rule run_calls_no_duplicate_keys)
  then have "distinct (map fst (chapters (p_data (fst (run_calls fmt d fs calls)))))"
    by (simp add: no_duplicate_keys_def)
  then have "filter (\<lambda>kv. fst kv = number chapter)
     (chapters (p_data (fst (snd (add_chapter_details (fst (run_calls fmt d fs calls)) fs''
        chapter notes' padding directory)))))
     = [(number chapter, \<lparr>title = chapter_title chapter, notes = notes'\<rparr>)]"
    by (simp add: add_chapter_details_data filter_dict_setitem)
  with reach show ?thesis
    by (simp add: do_call_no_duplicate_keys)
qed

theorem chapters_keys_unique_witness:
  "no_duplicate_keys (p_data (fst (run_calls FormatAll ''out'' empty_fs
      [AddChapterDetails \<lparr>number = 5, chapter_title = ''T''\<rparr> ''a'' 0 None]))) \<and>
   no_duplicate_keys (p_data (post_init FormatAll ''out'')) \<and>
   no_duplicate_keys (p_data (fst (snd (do_call (post_init FormatAll ''out'', empty_fs)
      (AddChapterDetails \<lparr>number = 5, chapter_title = ''T''\<rparr> ''a'' 0 None))))) \<and>
   chapters (p_data (fst (snd (add_chapter_details
      (fst (run_calls FormatAll ''out'' empty_fs
         [AddChapterDetails \<lparr>number = 5, chapter_title = ''T''\<rparr> ''a'' 0 None]))
      empty_fs \<lparr>number = 5, chapter_title = ''T''\<rparr> ''b'' 0 None))))
     = [(5, \<lparr>title = ''T'', notes = ''b''\<rparr>)]"
  using chapters_keys_unique [of FormatAll "''out''" empty_fs
      "[AddChapterDetails \<lparr>number = 5, chapter_title = ''T''\<rparr> ''a'' 0 None]"
      "post_init FormatAll ''out''" empty_fs
      "AddChapterDetails \<lparr>number = 5, chapter_title = ''T''\<rparr> ''a'' 0 None"
      "\<lparr>number = 5, chapter_title = ''T''\<rparr>" empty_fs "''b''" 0 None]
  by (simp add: run_calls_def add_chapter_details_data post_init_def no_duplicate_keys_def)

text \<open>
  C5. \<open>write_data\<close> leaves the exporter as it was, so a second call serializes the same
  aggregate: when the operating system refuses nothing, both calls raise nothing and the
  content of \<^verbatim>\<open>info.json\<close> after the second call is the content after the first, the
  serialization of the aggregate; with the same directory the second call leaves every
  file as the first call left it.
\<close>

theorem write_data_idempotent:
  "fst (snd (write_data self fs directory)) = self \<and>
   (p_write_json self \<and>
    permits fs (truediv (resolve_directory self directory) ''info.json'') \<and>
    permits fs (truediv (resolve_directory self directory') ''info.json'') \<longrightarrow>
      fst (write_data self fs directory) = None \<and>
      fst (write_data (fst (snd (write_data self fs directory)))
             (snd (snd (write_data self fs directory))) directory') = None \<and>
      files (snd (snd (write_data self fs directory)))
          (truediv (resolve_directory self directory) ''info.json'')
        = Some (json_dumps (data_obj (p_data self))) \<and>
      files (snd (snd (write_data (fst (snd (write_data self fs directory)))
                         (snd (snd (write_data self fs directory))) directory')))
          (truediv (resolve_directory self directory') ''info.json'')
        = Some (json_dumps (data_obj (p_data self))) \<and>
      files (snd (snd (write_data (fst (snd (write_data self fs directory)))
                         (snd (snd (write_data self fs directory))) directory)))
        = files (snd (snd (write_data self fs directory))))"
proof -
  let ?t = "truediv (resolve_directory self directory) ''info.json''"
  let ?t' = "truediv (resolve_directory self directory') ''info.json''"
  let ?fs1 = "fs\<lparr>dirs := dirs fs \<union> set (ancestors (parent ?t)),
                 files := (files fs)(?t \<mapsto> json_dumps (data_obj (p_data self)))\<rparr>"
  have same: "fst (snd (write_data self fs directory)) = self"
    by (rule write_data_self)
  have twice: "fst (write_data self fs directory) = None \<and>
      fst (write_data self (snd (snd (write_data self fs directory))) directory') = None \<and>
      files (snd (snd (write_data self fs directory))) ?t
        = Some (json_dumps (data_obj (p_data self))) \<and>
      files (snd (snd (write_data self (snd (snd (write_data self fs directory))) directory'))) ?t'
        = Some (json_dumps (data_obj (p_data self))) \<and>
      files (snd (snd (write_data self (snd (snd (write_data self fs directory))) directory)))
        = files (snd (snd (write_data self fs directory)))"
    if j: "p_write_json self" and p: "permits fs ?t" and p': "permits fs ?t'"
  proof -
    have one: "write_data self fs directory = (None, self, ?fs1)"
      using j p by (rule write_data_permits)
    have "permits ?fs1 ?t'" and "permits ?fs1 ?t"
      using p p' by (simp_all add: permits_def)
    then have "write_data self ?fs1 directory' =
        (None, self, ?fs1\<lparr>dirs := dirs ?fs1 \<union> set (ancestors (parent ?t')),
           files := (files ?fs1)(?t' \<mapsto> json_dumps (data_obj (p_data self)))\<rparr>)"
      and "write_data self ?fs1 directory =
        (None, self, ?fs1\<lparr>dirs := dirs ?fs1 \<union> set (ancestors (parent ?t)),
           files := (files ?fs1)(?t \<mapsto> json_dumps (data_obj (p_data self)))\<rparr>)"
      using j by (simp_all add: write_data_permits)
    with one show ?thesis by simp
  qed
  from same twice show ?thesis by simp
qed

theorem write_data_idempotent_witness:
  "files (snd (snd (write_data (post_init FormatJson ''out'') empty_fs None)))
     (PurePath [] [''out'', ''info.json''])
     = Some (json_dumps (data_obj \<lparr>chapters = [], summary = []\<rparr>)) \<and>
   files (snd (snd (write_data
       (fst (snd (write_data (post_init FormatJson ''out'') empty_fs None)))
       (snd (snd (write_data (post_init FormatJson ''out'') empty_fs None))) None)))
     (PurePath [] [''out'', ''info.json''])
     = Some (json_dumps (data_obj \<lparr>chapters = [], summary = []\<rparr>))"
proof -
  have d: "truediv (resolve_directory (post_init FormatJson ''out'') None) ''info.json'' =
      PurePath [] [''out'', ''info.json'']"
    using truediv_simple_name [of "''info.json''" "Path ''out''"]
    by (simp add: resolve_directory_def post_init_def Path_def splitroot_def)
  have w: "p_write_json (post_init FormatJson ''out'')"
    "p_data (post_init FormatJson ''out'') = \<lparr>chapters = [], summary = []\<rparr>"
    by (simp_all add: post_init_def)
  have p: "permits empty_fs q" for q
    by (simp add: permits_def empty_fs_def)
  show ?thesis
    using write_data_idempotent [of "post_init FormatJson ''out''" empty_fs None None]
    by (simp add: d w p write_data_self)
qed




text \<open>
  C7. For a padding \<open>p \<ge> 0\<close> the prefix of the chapter's file names is the decimal
  representation of the number zero-padded to the width \<open>p\<close> (after the sign for a
  negative number, as Python pads numerals); for a number \<open>n \<ge> 0\<close> that is \<open>str(n)\<close>
  with zeros in front up to the width. Its length is the larger of \<open>p\<close> and the length
  of \<open>str(n)\<close>, so the width 0 leaves \<open>str(n)\<close> as it is. Padding 3 and number 7 give
  \<^verbatim>\<open>007\<close>, padding 0 gives \<^verbatim>\<open>7\<close>. The title of a chapter is written to the file of that
  prefix.
\<close>

theorem chapter_file_prefix_zero_padded:
  "0 \<le> padding \<Longrightarrow>
     format_0d n padding = Inr (zfill (nat padding) (str_int n)) \<and>
     (0 \<le> n \<longrightarrow> zfill (nat padding) (str_int n)
         = replicate (nat padding - length (str_int n)) (CHR ''0'') @ str_int n) \<and>
     length (zfill (nat padding) (str_int n)) = max (nat padding) (length (str_int n)) \<and>
     format_0d n 0 = Inr (str_int n) \<and>
     format_0d 7 3 = Inr ''007'' \<and> format_0d 7 0 = Inr ''7'' \<and>
     (p_write_text self \<and> number chapter = n \<and>
      permits fs (truediv (resolve_directory self directory)
                    (zfill (nat padding) (str_int n) @ ''_title.txt'')) \<and>
      permits fs (truediv (resolve_directory self directory)
                    (zfill (nat padding) (str_int n) @ ''_notes.txt'')) \<longrightarrow>
        files (snd (snd (add_chapter_details self fs chapter notes' padding directory)))
          (truediv (resolve_directory self directory)
             (zfill (nat padding) (str_int n) @ ''_title.txt''))
          = Some (chapter_title chapter @ newline))"
proof -
  assume p: "0 \<le> padding"
  have f: "format_0d n padding = Inr (zfill (nat padding) (str_int n))"
    using p by (rule zfill_format_0d)
  have z: "format_0d n 0 = Inr (str_int n)"
    using zfill_format_0d [of 0 n] by (simp add: zfill_def)
  have ex: "format_0d 7 3 = Inr ''007''" "format_0d 7 0 = Inr ''7''"
    by code_simp+
  have wr: "files (snd (snd (add_chapter_details self fs chapter notes' padding directory)))
          (truediv (resolve_directory self directory)
             (zfill (nat padding) (str_int n) @ ''_title.txt''))
          = Some (chapter_title chapter @ newline)"
    if "p_write_text self" and "number chapter = n"
      and "permits fs (truediv (resolve_directory self directory)
                    (zfill (nat padding) (str_int n) @ ''_title.txt''))"
      and "permits fs (truediv (resolve_directory self directory)
                    (zfill (nat padding) (str_int n) @ ''_notes.txt''))"
    using add_chapter_details_written [of self "chapter" padding "zfill (nat padding) (str_int n)"
        fs directory "notes'"] that f
    by (simp split: if_splits)
  from f z ex wr show ?thesis
    by (simp add: length_zfill zfill_str_int_nonneg)
qed

theorem chapter_file_prefix_zero_padded_witness:
  "format_0d 7 3 = Inr ''007'' \<and> format_0d 7 0 = Inr ''7'' \<and> format_0d 12 5 = Inr ''00012'' \<and>
   format_0d 1234 2 = Inr ''1234'' \<and> format_0d (- 7) 3 = Inr ''-07'' \<and>
   files (snd (snd (add_chapter_details (post_init FormatText ''out'') empty_fs
      \<lparr>number = 12, chapter_title = ''T''\<rparr> [] 5 None)))
     (PurePath [] [''out'', ''00012_title.txt'']) = Some (''T'' @ newline)"
proof -
  have z: "zfill 5 (str_int 12) = ''00012''" "zfill 2 (str_int 1234) = ''1234''"
    "zfill 3 (str_int (- 7)) = ''-07''"
    by code_simp+
  have w: "p_write_text (post_init FormatText ''out'')"
    by (simp add: post_init_def)
  have p: "permits empty_fs q" for q
    by (simp add: permits_def empty_fs_def)
  have d: "truediv (resolve_directory (post_init fmt ''out'') None) ''00012_title.txt'' =
      PurePath [] [''out'', ''00012_title.txt'']" for fmt
    using truediv_simple_name [of "''00012_title.txt''" "Path ''out''"]
    by (simp add: resolve_directory_def post_init_def Path_def splitroot_def)
  show ?thesis
    using chapter_file_prefix_zero_padded [of 5 12 "post_init FormatText ''out''"
        "\<lparr>number = 12, chapter_title = ''T''\<rparr>" empty_fs None "[]"]
      chapter_file_prefix_zero_padded [of 2 1234 "post_init FormatText ''out''"
        "\<lparr>number = 12, chapter_title = ''T''\<rparr>" empty_fs None "[]"]
      chapter_file_prefix_zero_padded [of 3 "- 7" "post_init FormatText ''out''"
        "\<lparr>number = 12, chapter_title = ''T''\<rparr>" empty_fs None "[]"]
    by (simp add: z w p d)
qed

text \<open>
  C8. When the summary is absent (\<^verbatim>\<open>None\<close>) or empty, or text output is disabled,
  \<open>add_series_texts\<close> raises nothing and leaves the exporter and the filesystem as they
  were.
\<close>

theorem add_series_texts_noop:
  "s = None \<or> s = Some [] \<or> \<not> p_write_text self \<Longrightarrow>
     add_series_texts self fs s directory = (None, self, fs)"
  by (auto simp: add_series_texts_def split: option.splits)

theorem add_series_texts_noop_witness:
  "add_series_texts (post_init FormatAll ''out'') empty_fs None (Some ''d'')
     = (None, post_init FormatAll ''out'', empty_fs) \<and>
   add_series_texts (post_init FormatAll ''out'') empty_fs (Some []) None
     = (None, post_init FormatAll ''out'', empty_fs) \<and>
   add_series_texts (post_init FormatJson ''out'') empty_fs (Some ''abc'') None
     = (None, post_init FormatJson ''out'', empty_fs)"
  using add_series_texts_noop [of None "post_init FormatAll ''out''" empty_fs "Some ''d''"]
    add_series_texts_noop [of "Some []" "post_init FormatAll ''out''" empty_fs None]
    add_series_texts_noop [of "Some ''abc''" "post_init FormatJson ''out''" empty_fs None]
  by (simp add: post_init_def)

text \<open>
  C9. The exception a write raises is the operating system's error, unchanged: the error
  of creating the directories, else of opening the file, else of writing to it. Each
  method raises exactly what its write raises (\<open>add_series_texts\<close> and \<open>write_data\<close>
  the error of their one write, \<open>add_chapter_details\<close> the error of the title's write,
  else of the notes' write), and the assignments made before the write stay: the summary
  is set and the chapter's record is stored although the method raised.
\<close>

theorem filesystem_errors_propagate:
  "fst (aio_write fs target data mode ending) =
     (case mkdir_errno fs (parent target) of
        Some e \<Rightarrow> Some (OSError e)
      | None \<Rightarrow>
          (case open_errno fs target of
             Some e \<Rightarrow> Some (OSError e)
           | None \<Rightarrow> (case write_errno fs target of Some e \<Rightarrow> Some (OSError e) | None \<Rightarrow> None))) \<and>
   (s \<noteq> [] \<and> p_write_text self \<longrightarrow>
      fst (add_series_texts self fs (Some s) directory) =
        fst (aio_write fs (truediv (resolve_directory self directory) ''summary.txt'') s ModeW newline) \<and>
      summary (p_data (fst (snd (add_series_texts self fs (Some s) directory)))) = s) \<and>
   (p_write_json self \<longrightarrow>
      fst (write_data self fs directory) =
        fst (aio_write fs (truediv (resolve_directory self directory) ''info.json'')
               (json_dumps (data_obj (p_data self))) ModeW [])) \<and>
   (p_write_text self \<and> format_0d (number chapter) padding = Inr prefix \<and>
    fst (aio_write fs (truediv (resolve_directory self directory) (prefix @ ''_title.txt''))
           (chapter_title chapter) ModeW newline) = Some x \<longrightarrow>
      fst (add_chapter_details self fs chapter notes' padding directory) = Some x \<and>
      dict_get (chapters (p_data (fst (snd (add_chapter_details self fs chapter notes' padding
          directory))))) (number chapter)
        = Some \<lparr>title = chapter_title chapter, notes = notes'\<rparr>) \<and>
   (p_write_text self \<and> format_0d (number chapter) padding = Inr prefix \<and>
    fst (aio_write fs (truediv (resolve_directory self directory) (prefix @ ''_title.txt''))
           (chapter_title chapter) ModeW newline) = None \<and> notes' \<noteq> [] \<longrightarrow>
      fst (add_chapter_details self fs chapter notes' padding directory) =
        fst (aio_write
               (snd (aio_write fs
                  (truediv (resolve_directory self directory) (prefix @ ''_title.txt''))
                  (chapter_title chapter) ModeW newline))
               (truediv (resolve_directory self directory) (prefix @ ''_notes.txt''))
               notes' ModeW newline) \<and>
      dict_get (chapters (p_data (fst (snd (add_chapter_details self fs chapter notes' padding
          directory))))) (number chapter)
        = Some \<lparr>title = chapter_title chapter, notes = notes'\<rparr>)"
  using aio_write_exn [of fs target data mode ending]
    add_series_texts_exn [of s self fs directory]
    add_series_texts_data [of self fs "Some s" directory]
    write_data_exn [of self fs directory]
    add_chapter_details_title_fails [of self "chapter" padding prefix fs directory x "notes'"]
    add_chapter_details_notes_fails [of self "chapter" padding prefix fs directory "notes'"]
    add_chapter_details_record [of self fs "chapter" "notes'" padding directory]
  by simp

theorem filesystem_errors_propagate_witness:
  "add_chapter_details (post_init FormatAll ''out'') readonly_fs
      \<lparr>number = 5, chapter_title = ''T''\<rparr> ''a'' 0 None
     = (Some (OSError 13),
        (post_init FormatAll ''out'')
          \<lparr>p_data := \<lparr>chapters = [(5, \<lparr>title = ''T'', notes = ''a''\<rparr>)], summary = []\<rparr>\<rparr>,
        readonly_fs\<lparr>dirs := {PurePath [] [], PurePath [] [''out'']}\<rparr>) \<and>
   fst (add_series_texts (post_init FormatAll ''out'') readonly_fs (Some ''abc'') None)
     = Some (OSError 13) \<and>
   summary (p_data (fst (snd (add_series_texts (post_init FormatAll ''out'') readonly_fs
      (Some ''abc'') None)))) = ''abc'' \<and>
   fst (write_data (post_init FormatAll ''out'') readonly_fs None) = Some (OSError 13)"
proof -
  have f: "format_0d 5 0 = Inr ''5''"
    by code_simp
  have d: "resolve_directory (post_init FormatAll ''out'') None = PurePath [] [''out'']"
    by (simp add: resolve_directory_def post_init_def Path_def splitroot_def)
  have t: "truediv (PurePath [] [''out'']) ''5_title.txt'' = PurePath [] [''out'', ''5_title.txt'']"
    "truediv (PurePath [] [''out'']) ''summary.txt'' = PurePath [] [''out'', ''summary.txt'']"
    "truediv (PurePath [] [''out'']) ''info.json'' = PurePath [] [''out'', ''info.json'']"
    by (simp_all add: truediv_simple_name)
  have a: "aio_write readonly_fs (PurePath [] [''out'', name]) data ModeW ending =
      (Some (OSError 13), readonly_fs\<lparr>dirs := {PurePath [] [], PurePath [] [''out'']}\<rparr>)"
    for name data ending
    by (auto simp: aio_write_def readonly_fs_def empty_fs_def parent_def ancestors_def Let_def)
  have w: "p_write_text (post_init FormatAll ''out'')" "p_write_json (post_init FormatAll ''out'')"
    by (simp_all add: post_init_def)
  have r: "add_chapter_details (post_init FormatAll ''out'') readonly_fs
      \<lparr>number = 5, chapter_title = ''T''\<rparr> ''a'' 0 None
     = (Some (OSError 13),
        (post_init FormatAll ''out'')
          \<lparr>p_data := \<lparr>chapters = [(5, \<lparr>title = ''T'', notes = ''a''\<rparr>)], summary = []\<rparr>\<rparr>,
        readonly_fs\<lparr>dirs := {PurePath [] [], PurePath [] [''out'']}\<rparr>)"
    using w by (simp add: add_chapter_details_def f d t a Let_def) (simp add: post_init_def)
  show ?thesis
    using filesystem_errors_propagate [of readonly_fs "PurePath [] [''out'', ''5_title.txt'']"
        "''T''" ModeW newline "''abc''" "post_init FormatAll ''out''" None
        "\<lparr>number = 5, chapter_title = ''T''\<rparr>" 0 "''5''" "OSError 13" "''a''"]
    by (simp add: f d t a w r)
qed

text \<open>
  C10. \<open>add_series_texts\<close> leaves \<open>chapters\<close> as it was, \<open>add_chapter_details\<close>
  leaves \<open>summary\<close> as it was, \<open>write_data\<close> leaves the whole exporter as it was, and
  no method changes the configuration derived at construction (the format, the
  destination and the two flags).
\<close>

theorem methods_frame:
  "chapters (p_data (fst (snd (add_series_texts self fs s directory)))) = chapters (p_data self) \<and>
   summary (p_data (fst (snd (add_chapter_details self fs chapter notes' padding directory))))
     = summary (p_data self) \<and>
   fst (snd (write_data self fs directory)) = self \<and>
   config (fst (snd (add_series_texts self fs s directory))) = config self \<and>
   config (fst (snd (add_chapter_details self fs chapter notes' padding directory))) = config self \<and>
   config (fst (snd (write_data self fs directory))) = config self \<and>
   config (fst (run_calls fmt d fs calls)) = config (post_init fmt d)"
proof -
  have step: "config (fst (snd (do_call st c))) = config (fst st)" for st c
    by (cases st; cases c)
      (simp_all add: add_series_texts_config add_chapter_details_config write_data_self)
  have "config (fst (run_calls fmt d fs calls)) = config (post_init fmt d)"
    by (induction calls rule: rev_induct) (simp_all add: run_calls_def step)
  then show ?thesis
    by (simp add: add_series_texts_data add_chapter_details_data write_data_self
        add_series_texts_config add_chapter_details_config split: option.splits)
qed

theorem methods_frame_witness:
  "chapters (p_data (fst (snd (add_series_texts
      ((post_init FormatAll ''out'')\<lparr>p_data := \<lparr>chapters = [(1, \<lparr>title = ''T'', notes = ''n''\<rparr>)],
                                                summary = ''old''\<rparr>\<rparr>)
      empty_fs (Some ''new'') None))))
     = [(1, \<lparr>title = ''T'', notes = ''n''\<rparr>)] \<and>
   summary (p_data (fst (snd (add_chapter_details
      ((post_init FormatAll ''out'')\<lparr>p_data := \<lparr>chapters = [(1, \<lparr>title = ''T'', notes = ''n''\<rparr>)],
                                                summary = ''old''\<rparr>\<rparr>)
      empty_fs \<lparr>number = 2, chapter_title = ''U''\<rparr> ''m'' 0 None))))
     = ''old''"
  using methods_frame [of
      "(post_init FormatAll ''out'')\<lparr>p_data := \<lparr>chapters = [(1, \<lparr>title = ''T'', notes = ''n''\<rparr>)],
                                                summary = ''old''\<rparr>\<rparr>"
      empty_fs "Some ''new''" None "\<lparr>number = 2, chapter_title = ''U''\<rparr>" "''m''" 0
      FormatAll "''out''" "[]"]
  by simp

end
